theory Spec2Isabelle
  imports Complex_Main
begin

section \<open>JavaScript numbers\<close>

text \<open>
  The program computes with JavaScript numbers. A number is modelled as a finite value,
  carried as a real, or one of the three non-finite values. Arithmetic on finite values
  is exact real arithmetic (rounding, overflow and underflow of the 64-bit format are not
  modelled, and zero carries no sign); the non-finite values follow the language's
  rules: a division of a non-zero value by zero is an infinity, zero by zero is NaN, NaN
  propagates through every operation and every comparison with NaN is false.
\<close>

datatype number = Num real | PosInf | NegInf | NaN

instantiation number :: "{plus,minus,uminus,times,inverse,ord}"
begin

fun plus_number :: "number \<Rightarrow> number \<Rightarrow> number" where
  "Num a + Num b = Num (a + b)"
| "NaN + _ = NaN"
| "_ + NaN = NaN"
| "PosInf + NegInf = NaN"
| "NegInf + PosInf = NaN"
| "PosInf + _ = PosInf"
| "_ + PosInf = PosInf"
| "NegInf + _ = NegInf"
| "_ + NegInf = NegInf"

fun uminus_number :: "number \<Rightarrow> number" where
  "- Num a = Num (- a)"
| "- PosInf = NegInf"
| "- NegInf = PosInf"
| "- NaN = NaN"

definition minus_number :: "number \<Rightarrow> number \<Rightarrow> number" where
  "a - b = a + (- b :: number)"

fun times_number :: "number \<Rightarrow> number \<Rightarrow> number" where
  "Num a * Num b = Num (a * b)"
| "NaN * _ = NaN"
| "_ * NaN = NaN"
| "PosInf * Num b = (if b = 0 then NaN else if 0 < b then PosInf else NegInf)"
| "NegInf * Num b = (if b = 0 then NaN else if 0 < b then NegInf else PosInf)"
| "Num a * PosInf = (if a = 0 then NaN else if 0 < a then PosInf else NegInf)"
| "Num a * NegInf = (if a = 0 then NaN else if 0 < a then NegInf else PosInf)"
| "PosInf * PosInf = PosInf"
| "PosInf * NegInf = NegInf"
| "NegInf * PosInf = NegInf"
| "NegInf * NegInf = PosInf"

fun divide_number :: "number \<Rightarrow> number \<Rightarrow> number" where
  "divide_number (Num a) (Num b) =
     (if b \<noteq> 0 then Num (a / b)
      else if 0 < a then PosInf else if a < 0 then NegInf else NaN)"
| "divide_number NaN _ = NaN"
| "divide_number _ NaN = NaN"
| "divide_number (Num a) PosInf = Num 0"
| "divide_number (Num a) NegInf = Num 0"
| "divide_number PosInf (Num b) = (if 0 \<le> b then PosInf else NegInf)"
| "divide_number NegInf (Num b) = (if 0 \<le> b then NegInf else PosInf)"
| "divide_number _ _ = NaN"

definition inverse_number :: "number \<Rightarrow> number" where
  "inverse_number a = divide (Num 1) a"

fun less_eq_number :: "number \<Rightarrow> number \<Rightarrow> bool" where
  "Num a \<le> Num b = (a \<le> b)"
| "NaN \<le> _ = False"
| "_ \<le> NaN = False"
| "NegInf \<le> _ = True"
| "_ \<le> PosInf = True"
| "PosInf \<le> _ = False"
| "_ \<le> NegInf = False"

fun less_number :: "number \<Rightarrow> number \<Rightarrow> bool" where
  "Num a < Num b = (a < b)"
| "NaN < _ = False"
| "_ < NaN = False"
| "PosInf < _ = False"
| "_ < NegInf = False"
| "NegInf < _  = True"
| "_ < PosInf = True"

instance ..

end

text \<open>\<^verbatim>\<open>Math.min\<close> and \<^verbatim>\<open>Math.max\<close>: NaN if any argument is NaN; with no argument,
  \<^verbatim>\<open>Infinity\<close> and \<^verbatim>\<open>-Infinity\<close>.\<close>

fun min2 :: "number \<Rightarrow> number \<Rightarrow> number" where
  "min2 NaN _ = NaN"
| "min2 _ NaN = NaN"
| "min2 a b = (if a \<le> b then a else b)"

fun max2 :: "number \<Rightarrow> number \<Rightarrow> number" where
  "max2 NaN _ = NaN"
| "max2 _ NaN = NaN"
| "max2 a b = (if a \<le> b then b else a)"

definition Math_min :: "number list \<Rightarrow> number" where
  "Math_min as = foldr min2 as PosInf"

definition Math_max :: "number list \<Rightarrow> number" where
  "Math_max as = foldr max2 as NegInf"

fun Math_cos :: "number \<Rightarrow> number" where
  "Math_cos (Num a) = Num (cos a)"
| "Math_cos _ = NaN"

fun Math_sin :: "number \<Rightarrow> number" where
  "Math_sin (Num a) = Num (sin a)"
| "Math_sin _ = NaN"

text \<open>\<^verbatim>\<open>Math.round\<close> rounds to the nearest integer, a half upwards.\<close>

fun Math_round :: "number \<Rightarrow> number" where
  "Math_round (Num a) = Num (of_int \<lfloor>a + 1 / 2\<rfloor>)"
| "Math_round a = a"

text \<open>The exponentiation \<^verbatim>\<open>a ** 2\<close>.\<close>

fun sq :: "number \<Rightarrow> number" where
  "sq (Num a) = Num (a ^ 2)"
| "sq NaN = NaN"
| "sq _ = PosInf"

fun Number_isFinite :: "number \<Rightarrow> bool" where
  "Number_isFinite (Num a) = True"
| "Number_isFinite _ = False"

text \<open>A number used as a condition (\<^verbatim>\<open>a || b\<close>, \<^verbatim>\<open>if (a)\<close>): zero and NaN are falsy.\<close>

fun truthy :: "number \<Rightarrow> bool" where
  "truthy (Num a) = (a \<noteq> 0)"
| "truthy NaN = False"
| "truthy _ = True"

text \<open>Strict inequality \<^verbatim>\<open>a !== b\<close> of two numbers: NaN differs from everything, itself
  included.\<close>

fun strict_neq :: "number \<Rightarrow> number \<Rightarrow> bool" where
  "strict_neq NaN _ = True"
| "strict_neq _ NaN = True"
| "strict_neq a b = (a \<noteq> b)"

text \<open>\<^verbatim>\<open>+(a).toFixed(d)\<close>: the decimal with \<open>d\<close> places nearest to \<open>a\<close> (a tie
  goes away from zero), read back as a number. From \<open>10^21\<close> on, \<^verbatim>\<open>toFixed\<close> prints the
  number itself.\<close>

fun toFixed :: "nat \<Rightarrow> number \<Rightarrow> number" where
  "toFixed d (Num a) =
     (if 10 ^ 21 \<le> \<bar>a\<bar> then Num a
      else Num (sgn a * of_int \<lfloor>\<bar>a\<bar> * 10 ^ d + 1 / 2\<rfloor> / 10 ^ d))"
| "toFixed d a = a"

section \<open>Geometry utilities\<close>

record XYCoords =
  x :: number
  y :: number

record BoundingBox = XYCoords +
  w :: number
  h :: number

record RotatedBoundingBox = BoundingBox +
  rotate :: number

type_synonym Point = "number \<times> number"

record InvertedBox =
  box :: BoundingBox
  didFlipX :: bool
  didFlipY :: bool

text \<open>The two conditionals of \<^verbatim>\<open>invertNegativeBoundingBox\<close> run one after the other on
  the local copies of the fields; each tests the field of the argument.\<close>

definition invertNegativeBoundingBox :: "BoundingBox \<Rightarrow> InvertedBox" where
  "invertNegativeBoundingBox b =
     (let (x1, w1, fx) =
            (if w b < Num 0
             then (let w' = w b * Num (- 1) in (x b - w', w', True))
             else (x b, w b, False));
          (y1, h1, fy) =
            (if h b < Num 0
             then (let h' = h b * Num (- 1) in (y b - h', h', True))
             else (y b, h b, False))
      in \<lparr>box = \<lparr>x = x1, y = y1, w = w1, h = h1\<rparr>, didFlipX = fx, didFlipY = fy\<rparr>)"

definition rotatePointAroundAnchor ::
  "number \<Rightarrow> number \<Rightarrow> number \<Rightarrow> number \<Rightarrow> number \<Rightarrow> XYCoords" where
  "rotatePointAroundAnchor x1 y1 x2 y2 angle =
     \<lparr>x = Math_cos angle * (x1 - x2) - Math_sin angle * (y1 - y2) + x2,
      y = Math_sin angle * (x1 - x2) + Math_cos angle * (y1 - y2) + y2\<rparr>"

definition getRotatedBoxCoords :: "'a RotatedBoundingBox_scheme \<Rightarrow> XYCoords list" where
  "getRotatedBoxCoords b =
     (let x1 = x b;
          x2 = x1 + w b;
          y1 = y b;
          y2 = y1 + h b;
          cx = (x1 + x2) / Num 2;
          cy = (y1 + y2) / Num 2
      in [rotatePointAroundAnchor x1 y1 cx cy (rotate b),
          rotatePointAroundAnchor x2 y1 cx cy (rotate b),
          rotatePointAroundAnchor x1 y2 cx cy (rotate b),
          rotatePointAroundAnchor x2 y2 cx cy (rotate b)])"

text \<open>The loop of \<^verbatim>\<open>getSurroundingBoundingBox\<close> over the boxes, on the four running
  bounds \<open>(x1, y1, x2, y2)\<close>.\<close>

fun surroundingLoop ::
  "number \<times> number \<times> number \<times> number \<Rightarrow> 'a RotatedBoundingBox_scheme list
     \<Rightarrow> number \<times> number \<times> number \<times> number" where
  "surroundingLoop acc [] = acc"
| "surroundingLoop (x1, y1, x2, y2) (b # bs) =
     (case getRotatedBoxCoords b of
        [nw, ne, sw, se] \<Rightarrow>
          surroundingLoop
            (Math_min [x1, x nw, x ne, x se, x sw],
             Math_min [y1, y nw, y ne, y se, y sw],
             Math_max [x2, x nw, x ne, x se, x sw],
             Math_max [y2, y nw, y ne, y se, y sw]) bs
      | _ \<Rightarrow> (x1, y1, x2, y2))"

definition getSurroundingBoundingBox ::
  "'a RotatedBoundingBox_scheme list \<Rightarrow> RotatedBoundingBox" where
  "getSurroundingBoundingBox boxes =
     (if length boxes < 1 then \<lparr>x = Num 0, y = Num 0, w = Num 0, h = Num 0, rotate = Num 0\<rparr>
      else if length boxes = 1 then
        (let b = boxes ! 0
         in \<lparr>x = x b, y = y b, w = w b, h = h b, rotate = rotate b\<rparr>)
      else
        (case surroundingLoop (PosInf, PosInf, NegInf, NegInf) boxes of
           (x1, y1, x2, y2) \<Rightarrow> \<lparr>x = x1, y = y1, w = x2 - x1, h = y2 - y1, rotate = Num 0\<rparr>))"

text \<open>All corners of all boxes of a list, rotated, in the order of the list.\<close>

definition allRotatedCoords :: "'a RotatedBoundingBox_scheme list \<Rightarrow> XYCoords list" where
  "allRotatedCoords boxes = concat (map getRotatedBoxCoords boxes)"

text \<open>The real that a finite number carries, and the boxes whose fields are all
  finite.\<close>

fun the_real :: "number \<Rightarrow> real" where
  "the_real (Num a) = a"
| "the_real _ = 0"

definition finiteBox :: "'a RotatedBoundingBox_scheme \<Rightarrow> bool" where
  "finiteBox b \<longleftrightarrow>
     Number_isFinite (x b) \<and> Number_isFinite (y b) \<and> Number_isFinite (w b) \<and>
     Number_isFinite (h b) \<and> Number_isFinite (rotate b)"

section \<open>Objects and \<^verbatim>\<open>assignWithoutUndefined\<close>\<close>

text \<open>A property value is \<^verbatim>\<open>undefined\<close> or a defined value. The target object is a
  map from keys to values; the source object lists its own enumerable properties in the
  order of \<^verbatim>\<open>Object.keys\<close>, and reading \<^verbatim>\<open>source[key]\<close> finds the property of that
  name.\<close>

datatype 'v jsvalue = Undefined | Defined 'v

type_synonym 'v object = "string \<rightharpoonup> 'v jsvalue"

definition Object_keys :: "(string \<times> 'v jsvalue) list \<Rightarrow> string list" where
  "Object_keys source = map fst source"

definition Object_hasOwn :: "(string \<times> 'v jsvalue) list \<Rightarrow> string \<Rightarrow> bool" where
  "Object_hasOwn source key \<longleftrightarrow> key \<in> set (map fst source)"

text \<open>Reading a property that the object does not have gives \<^verbatim>\<open>undefined\<close>.\<close>

definition getProp :: "(string \<times> 'v jsvalue) list \<Rightarrow> string \<Rightarrow> 'v jsvalue" where
  "getProp source key = (case map_of source key of None \<Rightarrow> Undefined | Some v \<Rightarrow> v)"

fun assignLoop ::
  "'v object \<Rightarrow> (string \<times> 'v jsvalue) list \<Rightarrow> string list \<Rightarrow> 'v object" where
  "assignLoop target source [] = target"
| "assignLoop target source (key # keys) =
     (let v = getProp source key
      in if Object_hasOwn source key \<and> v \<noteq> Undefined
         then assignLoop (target(key \<mapsto> v)) source keys
         else assignLoop target source keys)"

definition assignWithoutUndefined ::
  "'v object \<Rightarrow> (string \<times> 'v jsvalue) list \<Rightarrow> 'v object" where
  "assignWithoutUndefined target source = assignLoop target source (Object_keys source)"

section \<open>Ellipse hit test\<close>

text \<open>Modelled from the spec: \<^verbatim>\<open>rotatePoint\<close> of \<^verbatim>\<open>@core/utils\<close>, which the handler
  imports, is not among the sources under that name; it is the 2D rotation of a point
  around an anchor, which the sources define as \<^verbatim>\<open>rotatePointAroundAnchor\<close>.\<close>

definition rotatePoint ::
  "number \<Rightarrow> number \<Rightarrow> number \<Rightarrow> number \<Rightarrow> number \<Rightarrow> XYCoords" where
  "rotatePoint = rotatePointAroundAnchor"

text \<open>The value of the ellipse equation that \<^verbatim>\<open>hitTest\<close> computes, and the test.\<close>

definition ellipseValue :: "'a RotatedBoundingBox_scheme \<Rightarrow> XYCoords \<Rightarrow> number" where
  "ellipseValue element coords =
     (let rX = w element / Num 2;
          rY = h element / Num 2;
          cX = x element + w element / Num 2;
          cY = y element + h element / Num 2;
          rotatedCoords = rotatePoint (x coords) (y coords) cX cY (- rotate element)
      in sq (x rotatedCoords - cX) / sq rX + sq (y rotatedCoords - cY) / sq rY)"

definition hitTest :: "'a RotatedBoundingBox_scheme \<Rightarrow> XYCoords \<Rightarrow> bool" where
  "hitTest element coords \<longleftrightarrow> ellipseValue element coords \<le> Num 1"

section \<open>Elements, application state and pointer state\<close>

text \<open>The declarations of the element, state and pointer types are not among the
  sources; the records below carry the fields that the modelled functions read and
  write. An element is one record for all variants, told apart by its type tag; the path
  is the freedraw variant's list of relative points. \<open>ident\<close> stands for the identity of
  the element object.\<close>

datatype ElementType = ShapeType | FreedrawType | TextType

record CanvasElement = RotatedBoundingBox +
  ident :: nat
  etype :: ElementType
  flippedX :: bool
  flippedY :: bool
  path :: "Point list"
  textValue :: string

text \<open>A patch: every field is optional; \<open>None\<close> is a field that is absent or
  \<^verbatim>\<open>undefined\<close>.\<close>

record CanvasElementMutations =
  m_x :: "number option"
  m_y :: "number option"
  m_w :: "number option"
  m_h :: "number option"
  m_rotate :: "number option"
  m_flippedX :: "bool option"
  m_flippedY :: "bool option"
  m_path :: "Point list option"
  m_text :: "string option"

definition noMutations :: CanvasElementMutations where
  "noMutations = \<lparr>m_x = None, m_y = None, m_w = None, m_h = None, m_rotate = None,
     m_flippedX = None, m_flippedY = None, m_path = None, m_text = None\<rparr>"

text \<open>Modelled from the spec: \<^verbatim>\<open>mutateElement\<close> of the element layer is not among the
  sources. It applies a partial-field patch to an element; patch fields with value
  \<^verbatim>\<open>undefined\<close> are ignored.\<close>

definition mutateElement :: "CanvasElement \<Rightarrow> CanvasElementMutations \<Rightarrow> CanvasElement" where
  "mutateElement e m =
     e\<lparr>x := (case m_x m of None \<Rightarrow> x e | Some v \<Rightarrow> v),
       y := (case m_y m of None \<Rightarrow> y e | Some v \<Rightarrow> v),
       w := (case m_w m of None \<Rightarrow> w e | Some v \<Rightarrow> v),
       h := (case m_h m of None \<Rightarrow> h e | Some v \<Rightarrow> v),
       rotate := (case m_rotate m of None \<Rightarrow> rotate e | Some v \<Rightarrow> v),
       flippedX := (case m_flippedX m of None \<Rightarrow> flippedX e | Some v \<Rightarrow> v),
       flippedY := (case m_flippedY m of None \<Rightarrow> flippedY e | Some v \<Rightarrow> v),
       path := (case m_path m of None \<Rightarrow> path e | Some v \<Rightarrow> v),
       textValue := (case m_text m of None \<Rightarrow> textValue e | Some v \<Rightarrow> v)\<rparr>"

datatype USERMODE = IDLE | CREATING | DRAGGING | RESIZING | ROTATING

datatype ToolLabel = Selection | Hand | Ellipse | Rectangle | Freedraw | Text

record AppState =
  zoom :: number
  scrollOffset :: XYCoords
  gridSize :: number
  gridSnap :: bool
  activeTool :: ToolLabel
  usermode :: USERMODE
  selectionHighlight :: "BoundingBox option"

record DragState =
  occurred :: bool
  previousOffset :: XYCoords
  offset :: XYCoords

text \<open>Modelled from the spec: a transform handle is one of the resize handles or the
  rotate handle, with an anchor position and a type tag; the tag of the rotate handle is
  \<^verbatim>\<open>"rotate"\<close>.\<close>

record TransformHandle =
  handle_x :: number
  handle_y :: number
  handle_type :: string

record PointerState =
  origin :: XYCoords
  drag :: DragState
  shiftKey :: bool
  ctrlKey :: bool
  hit_element :: "CanvasElement option"
  hit_transformHandle :: "TransformHandle option"

record PointerEvent =
  ev_ctrlKey :: bool

text \<open>The fields of the event that \<^verbatim>\<open>onCanvasPointerDown\<close> and the pointer state made
  from it read.\<close>

record PointerDownEvent = PointerEvent +
  buttons :: nat
  clientX :: number
  clientY :: number
  ev_shiftKey :: bool

record TransformingElement =
  element :: CanvasElement
  initialElement :: CanvasElement

definition ELEMENT_PRECISION :: nat where
  "ELEMENT_PRECISION = 2"

definition ROTATION_SNAP_THRESHOLD :: number where
  "ROTATION_SNAP_THRESHOLD = Num (pi / 12)"

text \<open>Modelled from the spec: the viewport functions are not among the sources.
  \<^verbatim>\<open>screenOffsetToVirtualOffset\<close> is \<open>virtual = (screen - panOffset) / zoom\<close>;
  \<^verbatim>\<open>snapVirtualCoordsToGrid\<close> rounds each coordinate to the nearest multiple of the grid
  size and is a no-op when grid snapping is disabled.\<close>

definition screenOffsetToVirtualOffset :: "'a XYCoords_scheme \<Rightarrow> AppState \<Rightarrow> XYCoords" where
  "screenOffsetToVirtualOffset p s =
     \<lparr>x = (x p - x (scrollOffset s)) / zoom s, y = (y p - y (scrollOffset s)) / zoom s\<rparr>"

definition snapVirtualCoordsToGrid :: "'a XYCoords_scheme \<Rightarrow> AppState \<Rightarrow> XYCoords" where
  "snapVirtualCoordsToGrid p s =
     (if gridSnap s
      then \<lparr>x = Math_round (x p / gridSize s) * gridSize s,
            y = Math_round (y p / gridSize s) * gridSize s\<rparr>
      else \<lparr>x = x p, y = y p\<rparr>)"

text \<open>Modelled from the spec: the element factories are not among the sources. A new
  element has the fields it is given and \<^verbatim>\<open>DEFAULT_ELEMENT_TRANSFORMS\<close> (no rotation, no
  flip); the identity of the new object is a parameter.\<close>

definition createShapeElement :: "nat \<Rightarrow> BoundingBox \<Rightarrow> CanvasElement" where
  "createShapeElement i b =
     \<lparr>x = x b, y = y b, w = w b, h = h b, rotate = Num 0, ident = i, etype = ShapeType,
      flippedX = False, flippedY = False, path = [], textValue = []\<rparr>"

definition createFreedrawElement :: "nat \<Rightarrow> Point list \<Rightarrow> BoundingBox \<Rightarrow> CanvasElement" where
  "createFreedrawElement i p b =
     \<lparr>x = x b, y = y b, w = w b, h = h b, rotate = Num 0, ident = i, etype = FreedrawType,
      flippedX = False, flippedY = False, path = p, textValue = []\<rparr>"

definition createTextElement :: "nat \<Rightarrow> string \<Rightarrow> BoundingBox \<Rightarrow> CanvasElement" where
  "createTextElement i t b =
     \<lparr>x = x b, y = y b, w = w b, h = h b, rotate = Num 0, ident = i, etype = TextType,
      flippedX = False, flippedY = False, path = [], textValue = t\<rparr>"

section \<open>Creating elements\<close>

definition createElementFromTool ::
  "AppState \<Rightarrow> nat \<Rightarrow> ToolLabel \<Rightarrow> XYCoords \<Rightarrow> bool \<Rightarrow> CanvasElement option" where
  "createElementFromTool s i tool position snapElementToGrid =
     (let elementPosition =
            (if snapElementToGrid then position else snapVirtualCoordsToGrid position s);
          box0 = \<lparr>x = x elementPosition, y = y elementPosition, w = Num 0, h = Num 0\<rparr>;
          unsnappedBox = \<lparr>x = x position, y = y position, w = Num 0, h = Num 0\<rparr>
      in case tool of
           Ellipse \<Rightarrow> Some (createShapeElement i box0)
         | Rectangle \<Rightarrow> Some (createShapeElement i box0)
         | Freedraw \<Rightarrow> Some (createFreedrawElement i [(Num 0, Num 0)] unsnappedBox)
         | Text \<Rightarrow> Some (createTextElement i [] unsnappedBox)
         | _ \<Rightarrow> None)"

text \<open>\<^verbatim>\<open>a || b\<close> on numbers.\<close>

definition or_else :: "number \<Rightarrow> number \<Rightarrow> number" where
  "or_else a b = (if truthy a then a else b)"

text \<open>The shape case of \<^verbatim>\<open>onElementCreation\<close>: the box from the pointer origin to
  its current position, snapped unless a ctrl key is held, then normalised.\<close>

definition shapeCreationBox :: "AppState \<Rightarrow> PointerEvent \<Rightarrow> PointerState \<Rightarrow> BoundingBox" where
  "shapeCreationBox s e p =
     (let start = screenOffsetToVirtualOffset (origin p) s;
          elementBox = \<lparr>x = x start, y = y start,
                         w = x (offset (drag p)) / zoom s, h = y (offset (drag p)) / zoom s\<rparr>;
          elementBox =
            (if \<not> ctrlKey p
             then (let position = snapVirtualCoordsToGrid elementBox s
                   in elementBox\<lparr>x := x position, y := y position\<rparr>)
             else elementBox);
          elementBox =
            (if \<not> ev_ctrlKey e
             then (let fallbackSize = gridSize s;
                       sizeCoords = snapVirtualCoordsToGrid
                         \<lparr>x = x elementBox + w elementBox, y = y elementBox + h elementBox\<rparr> s
                   in elementBox\<lparr>w := or_else (x sizeCoords - x elementBox) fallbackSize,
                                   h := or_else (y sizeCoords - y elementBox) fallbackSize\<rparr>)
             else elementBox)
      in elementBox)"

text \<open>The freedraw case: the new point, the shift \<open>(dx, dy)\<close> of the origin when the
  pointer is left of or above it, and the path with the new point pushed and, on a
  shift, every point moved.\<close>

definition freedrawMutations ::
  "AppState \<Rightarrow> PointerState \<Rightarrow> CanvasElement \<Rightarrow> CanvasElementMutations" where
  "freedrawMutations s p el =
     (let point = screenOffsetToVirtualOffset
            \<lparr>x = x (origin p) + x (offset (drag p)), y = y (origin p) + y (offset (drag p))\<rparr> s;
          dx = Math_max [x el - x point, Num 0];
          dy = Math_max [y el - y point, Num 0];
          mx = x el - dx;
          my = y el - dy;
          mw = Math_max [w el, x point - mx] + dx;
          mh = Math_max [h el, y point - my] + dy;
          pushed = path el @ [(toFixed ELEMENT_PRECISION (x point - mx),
                               toFixed ELEMENT_PRECISION (y point - my))];
          moved = (if truthy dx \<or> truthy dy
                   then map (\<lambda>(p0, p1). (toFixed 2 (p0 + dx), toFixed 2 (p1 + dy))) pushed
                   else pushed)
      in noMutations\<lparr>m_x := Some mx, m_y := Some my, m_w := Some mw, m_h := Some mh,
                      m_path := Some moved\<rparr>)"

definition onElementCreation ::
  "AppState \<Rightarrow> PointerEvent \<Rightarrow> PointerState \<Rightarrow> CanvasElement \<Rightarrow> CanvasElement" where
  "onElementCreation s e p el =
     (case etype el of
        ShapeType \<Rightarrow>
          (let normalizedBox = invertNegativeBoundingBox (shapeCreationBox s e p)
           in mutateElement el
                (noMutations\<lparr>m_x := Some (x (box normalizedBox)),
                               m_y := Some (y (box normalizedBox)),
                               m_w := Some (w (box normalizedBox)),
                               m_h := Some (h (box normalizedBox)),
                               m_flippedX := Some (didFlipX normalizedBox),
                               m_flippedY := Some (didFlipY normalizedBox)\<rparr>))
      | FreedrawType \<Rightarrow> mutateElement el (freedrawMutations s p el)
      | TextType \<Rightarrow> el)"

text \<open>A creation drag: the steps of \<^verbatim>\<open>onElementCreation\<close> for a sequence of pointer
  moves, each on the element as the step before left it.\<close>

fun creationDrag ::
  "AppState \<Rightarrow> CanvasElement \<Rightarrow> (PointerEvent \<times> PointerState) list \<Rightarrow> CanvasElement" where
  "creationDrag s el [] = el"
| "creationDrag s el ((e, p) # ms) = creationDrag s (onElementCreation s e p el) ms"

section \<open>Design menu and rotation\<close>

text \<open>The scale factor of one axis in \<^verbatim>\<open>onDesignMenuUpdate\<close>:
  \<^verbatim>\<open>(mutations.w ?? element.w) / element.w\<close>, then replaced by 1 if it is not finite.\<close>

definition rawScale :: "number option \<Rightarrow> number \<Rightarrow> number" where
  "rawScale mw ew = (case mw of None \<Rightarrow> ew | Some v \<Rightarrow> v) / ew"

definition designScale :: "number option \<Rightarrow> number \<Rightarrow> number" where
  "designScale mw ew =
     (let scale = rawScale mw ew in if \<not> Number_isFinite scale then Num 1 else scale)"

text \<open>The body of the loop up to the call of \<^verbatim>\<open>mutateElement\<close>: what it does to the
  shared patch. \<^verbatim>\<open>rescalePath\<close> is not among the sources and is a parameter.\<close>

definition designMutations ::
  "(Point list \<Rightarrow> number \<Rightarrow> number \<Rightarrow> number \<Rightarrow> number \<Rightarrow> Point list)
     \<Rightarrow> CanvasElementMutations \<Rightarrow> CanvasElement \<Rightarrow> CanvasElementMutations" where
  "designMutations rescalePath mutations el =
     (if etype el = FreedrawType
      then (let scaleX = designScale (m_w mutations) (w el);
                scaleY = designScale (m_h mutations) (h el)
            in if strict_neq scaleX (Num 1) \<or> strict_neq scaleY (Num 1)
               then mutations\<lparr>m_path := Some (rescalePath (path el) scaleX scaleY (Num 0) (Num 0))\<rparr>
               else mutations)
      else mutations)"

fun onDesignMenuUpdate ::
  "(Point list \<Rightarrow> number \<Rightarrow> number \<Rightarrow> number \<Rightarrow> number \<Rightarrow> Point list)
     \<Rightarrow> CanvasElement list \<Rightarrow> CanvasElementMutations \<Rightarrow> CanvasElement list" where
  "onDesignMenuUpdate rescalePath [] mutations = []"
| "onDesignMenuUpdate rescalePath (el # els) mutations =
     (let mutations' = designMutations rescalePath mutations el
      in mutateElement el mutations' # onDesignMenuUpdate rescalePath els mutations')"

text \<open>\<^verbatim>\<open>onElementRotate\<close>. \<^verbatim>\<open>getRotateAngle\<close> and \<^verbatim>\<open>getRotateMutations\<close> are not
  among the sources and are parameters, as is the type of a transform handle. The result
  is the list of the transforming elements after their mutation.\<close>

definition onElementRotate ::
  "(TransformingElement list \<Rightarrow> XYCoords \<Rightarrow> 'handle \<Rightarrow> number)
     \<Rightarrow> (TransformingElement \<Rightarrow> number \<Rightarrow> 'handle \<Rightarrow> CanvasElementMutations)
     \<Rightarrow> AppState \<Rightarrow> PointerEvent \<Rightarrow> PointerState \<Rightarrow> TransformingElement list \<Rightarrow> 'handle
     \<Rightarrow> CanvasElement list" where
  "onElementRotate getRotateAngle getRotateMutations s e p els handle =
     (let virtualPointerCoords = screenOffsetToVirtualOffset
            \<lparr>x = x (origin p) + x (offset (drag p)), y = y (origin p) + y (offset (drag p))\<rparr> s;
          angle = getRotateAngle els virtualPointerCoords handle;
          angle = (if \<not> ev_ctrlKey e
                   then (let threshold = ROTATION_SNAP_THRESHOLD
                         in Math_round (angle / threshold) * threshold)
                   else angle)
      in map (\<lambda>transformingElement.
                mutateElement (element transformingElement)
                  (getRotateMutations transformingElement angle handle)) els)"

section \<open>The application and pointer-up\<close>

text \<open>Modelled from the spec: the element layer is not among the sources. It holds the
  ordered collection of elements and the selection, in order of selection;
  \<^verbatim>\<open>deleteElement\<close> removes an element from the collection.\<close>

record ElementLayer =
  elements :: "CanvasElement list"
  selection :: "nat list"

definition deleteElement :: "CanvasElement \<Rightarrow> ElementLayer \<Rightarrow> ElementLayer" where
  "deleteElement el layer =
     layer\<lparr>elements := filter (\<lambda>a. ident a \<noteq> ident el) (elements layer)\<rparr>"

definition unselectAllElements :: "ElementLayer \<Rightarrow> ElementLayer" where
  "unselectAllElements layer = layer\<lparr>selection := []\<rparr>"

definition selectElements :: "CanvasElement list \<Rightarrow> ElementLayer \<Rightarrow> ElementLayer" where
  "selectElements els layer =
     layer\<lparr>selection := selection layer @
              filter (\<lambda>i. i \<notin> set (selection layer)) (remdups (map ident els))\<rparr>"


record App =
  state :: AppState
  pointer :: "PointerState option"
  elementLayer :: ElementLayer
  editingElement :: "CanvasElement option"
  transformingElements :: "TransformingElement list"

datatype error = TypeError

text \<open>The \<^verbatim>\<open>switch\<close> of \<^verbatim>\<open>onWindowPointerUp\<close>: the application after it and the new
  user mode. In the creating mode the code reads the type of \<^verbatim>\<open>this.editingElement!\<close>,
  which throws if there is no editing element. \<^verbatim>\<open>isElementNegligible\<close> is not among
  the sources and is a parameter.\<close>

definition pointerUpSwitch ::
  "(CanvasElement \<Rightarrow> AppState \<Rightarrow> bool) \<Rightarrow> PointerState \<Rightarrow> App \<Rightarrow> error + (App \<times> USERMODE)" where
  "pointerUpSwitch isElementNegligible p app =
     (case usermode (state app) of
        CREATING \<Rightarrow>
          (case editingElement app of
             None \<Rightarrow> Inl TypeError
           | Some el \<Rightarrow>
               if etype el = TextType
               then Inr (app\<lparr>editingElement := Some el\<rparr>, CREATING)
               else if isElementNegligible el (state app)
               then Inr (app\<lparr>elementLayer := deleteElement el (elementLayer app),
                              editingElement := None\<rparr>, IDLE)
               else Inr (app, IDLE))
      | DRAGGING \<Rightarrow>
          (if \<not> occurred (drag p)
           then (let layer = unselectAllElements (elementLayer app);
                     layer = (case hit_element p of
                                Some hit \<Rightarrow> selectElements [hit] layer
                              | None \<Rightarrow> layer)
                 in Inr (app\<lparr>elementLayer := layer\<rparr>, IDLE))
           else Inr (app, IDLE))
      | _ \<Rightarrow> Inr (app, IDLE))"

definition onWindowPointerUp ::
  "(CanvasElement \<Rightarrow> AppState \<Rightarrow> bool) \<Rightarrow> App \<Rightarrow> error + App" where
  "onWindowPointerUp isElementNegligible app =
     (case pointer app of
        None \<Rightarrow> Inr app
      | Some p \<Rightarrow>
          (case pointerUpSwitch isElementNegligible p app of
             Inl err \<Rightarrow> Inl err
           | Inr (app', newUserMode) \<Rightarrow>
               Inr (app'\<lparr>transformingElements := [],
                         pointer := None,
                         state := (state app')\<lparr>usermode := newUserMode,
                                                selectionHighlight := None\<rparr>\<rparr>)))"


section \<open>Tool change and pointer-down\<close>











text \<open>An application that is creating a text element.\<close>

definition editingText :: "App \<Rightarrow> bool" where
  "editingText app \<longleftrightarrow>
     usermode (state app) = CREATING \<and> (\<exists>el. editingElement app = Some el \<and> etype el = TextType)"


section \<open>Notions used to state the properties\<close>

text \<open>The region of the plane that a box shows: the rectangle between the corner
  \<open>(x, y)\<close> and the opposite corner \<open>(x + w, y + h)\<close>, whatever the signs of the
  extents.\<close>

definition covers :: "BoundingBox \<Rightarrow> XYCoords \<Rightarrow> bool" where
  "covers b p \<longleftrightarrow>
     Math_min [x b, x b + w b] \<le> x p \<and> x p \<le> Math_max [x b, x b + w b] \<and>
     Math_min [y b, y b + h b] \<le> y p \<and> y p \<le> Math_max [y b, y b + h b]"

text \<open>The rotated corners of a box as the specification describes them, on the reals:
  each of the four corners of the box, turned by the angle of the box around the centre
  of the box.\<close>

definition rotateAbout :: "real \<Rightarrow> real \<times> real \<Rightarrow> real \<times> real \<Rightarrow> real \<times> real" where
  "rotateAbout r c p =
     (fst c + (cos r * (fst p - fst c) - sin r * (snd p - snd c)),
      snd c + (sin r * (fst p - fst c) + cos r * (snd p - snd c)))"

definition boxCentre :: "'a RotatedBoundingBox_scheme \<Rightarrow> real \<times> real" where
  "boxCentre b = (the_real (x b) + the_real (w b) / 2, the_real (y b) + the_real (h b) / 2)"

definition boxCorners :: "'a RotatedBoundingBox_scheme \<Rightarrow> (real \<times> real) list" where
  "boxCorners b =
     [(the_real (x b), the_real (y b)),
      (the_real (x b) + the_real (w b), the_real (y b)),
      (the_real (x b), the_real (y b) + the_real (h b)),
      (the_real (x b) + the_real (w b), the_real (y b) + the_real (h b))]"

definition rotatedCorners :: "'a RotatedBoundingBox_scheme \<Rightarrow> (real \<times> real) list" where
  "rotatedCorners b = map (rotateAbout (the_real (rotate b)) (boxCentre b)) (boxCorners b)"

definition allRotatedCorners :: "'a RotatedBoundingBox_scheme list \<Rightarrow> (real \<times> real) list" where
  "allRotatedCorners bs = concat (map rotatedCorners bs)"

text \<open>The pointer position in virtual space, as the handlers of a pointer move compute
  it from the pointer origin and the drag offset.\<close>

definition virtualPointer :: "AppState \<Rightarrow> PointerState \<Rightarrow> XYCoords" where
  "virtualPointer s p =
     screenOffsetToVirtualOffset
       \<lparr>x = x (origin p) + x (offset (drag p)), y = y (origin p) + y (offset (drag p))\<rparr> s"

text \<open>Example inputs: a state with zoom 2, pan offset (7, 3) and grid snapping disabled;
  a pointer pressed at a screen position and dragged by a screen offset; an application
  in a given user mode with a pointer down.\<close>

definition exampleState :: AppState where
  "exampleState =
     \<lparr>zoom = Num 2, scrollOffset = \<lparr>x = Num 7, y = Num 3\<rparr>, gridSize = Num 10,
      gridSnap = False, activeTool = Rectangle, usermode = CREATING,
      selectionHighlight = None\<rparr>"

definition examplePointer :: "XYCoords \<Rightarrow> XYCoords \<Rightarrow> PointerState" where
  "examplePointer org off =
     \<lparr>origin = org,
      drag = \<lparr>occurred = True, previousOffset = \<lparr>x = Num 0, y = Num 0\<rparr>, offset = off\<rparr>,
      shiftKey = False, ctrlKey = False, hit_element = None, hit_transformHandle = None\<rparr>"

definition exampleApp :: "USERMODE \<Rightarrow> CanvasElement \<Rightarrow> App" where
  "exampleApp mode el =
     \<lparr>state = exampleState\<lparr>usermode := mode\<rparr>,
      pointer = Some (examplePointer \<lparr>x = Num 207, y = Num 203\<rparr> \<lparr>x = Num 0, y = Num 0\<rparr>),
      elementLayer = \<lparr>elements = [el], selection = [ident el]\<rparr>,
      editingElement = Some el,
      transformingElements = []\<rparr>"

section \<open>Properties of the numbers\<close>

lemma minus_Num [simp]: "Num a - Num b = Num (a - b)"
  by (simp add: minus_number_def)

lemma min2_commute: "min2 a b = min2 b a"
  by (cases a; cases b) auto

lemma min2_assoc: "min2 (min2 a b) c = min2 a (min2 b c)"
  by (cases a; cases b; cases c) auto

lemma min2_left_commute: "min2 a (min2 b c) = min2 b (min2 a c)"
  by (cases a; cases b; cases c) auto

lemma max2_commute: "max2 a b = max2 b a"
  by (cases a; cases b) auto

lemma max2_assoc: "max2 (max2 a b) c = max2 a (max2 b c)"
  by (cases a; cases b; cases c) auto

lemma max2_left_commute: "max2 a (max2 b c) = max2 b (max2 a c)"
  by (cases a; cases b; cases c) auto

lemma min2_PosInf [simp]: "min2 a PosInf = a" "min2 PosInf a = a"
  by (cases a; simp)+

lemma max2_NegInf [simp]: "max2 a NegInf = a" "max2 NegInf a = a"
  by (cases a; simp)+

lemma Math_min_append: "Math_min (as @ bs) = min2 (Math_min as) (Math_min bs)"
  by (induction as) (simp_all add: Math_min_def min2_assoc)

lemma Math_max_append: "Math_max (as @ bs) = max2 (Math_max as) (Math_max bs)"
  by (induction as) (simp_all add: Math_max_def max2_assoc)

text \<open>On finite arguments \<^verbatim>\<open>Math.min\<close> and \<^verbatim>\<open>Math.max\<close> are the minimum and the
  maximum of the reals.\<close>

lemma Math_min_finite:
  "as \<noteq> [] \<Longrightarrow> \<forall>a\<in>set as. Number_isFinite a \<Longrightarrow> Math_min as = Num (Min (the_real ` set as))"
proof (induction as)
  case Nil
  then show ?case by simp
next
  case (Cons a as)
  obtain r where r: "a = Num r" using Cons.prems(2) by (cases a) auto
  show ?case
  proof (cases "as = []")
    case True
    then show ?thesis by (simp add: Math_min_def r)
  next
    case False
    then have ih: "Math_min as = Num (Min (the_real ` set as))"
      using Cons by simp
    have "Math_min (a # as) = min2 a (Math_min as)" by (simp add: Math_min_def)
    also have "\<dots> = Num (min r (Min (the_real ` set as)))"
      by (simp add: ih r min_def)
    finally show ?thesis using False by (simp add: r)
  qed
qed

lemma Math_max_finite:
  "as \<noteq> [] \<Longrightarrow> \<forall>a\<in>set as. Number_isFinite a \<Longrightarrow> Math_max as = Num (Max (the_real ` set as))"
proof (induction as)
  case Nil
  then show ?case by simp
next
  case (Cons a as)
  obtain r where r: "a = Num r" using Cons.prems(2) by (cases a) auto
  show ?case
  proof (cases "as = []")
    case True
    then show ?thesis by (simp add: Math_max_def r)
  next
    case False
    then have ih: "Math_max as = Num (Max (the_real ` set as))"
      using Cons by simp
    have "Math_max (a # as) = max2 a (Math_max as)" by (simp add: Math_max_def)
    also have "\<dots> = Num (max r (Max (the_real ` set as)))"
      by (simp add: ih r max_def)
    finally show ?thesis using False by (simp add: r)
  qed
qed

lemma div_zero_not_finite: "\<not> Number_isFinite (a / Num 0)"
  by (cases a) auto

lemma sq_div_zero: "sq a / Num 0 = PosInf \<or> sq a / Num 0 = NaN"
  by (cases a) auto

lemma sq_div_sq_not_NegInf: "sq a / sq b \<noteq> NegInf"
  by (cases a; cases b) auto

lemma nonfinite_sum:
  assumes "t = PosInf \<or> t = NaN" "u \<noteq> NegInf"
  shows "(t + u = PosInf \<or> t + u = NaN) \<and> (u + t = PosInf \<or> u + t = NaN)"
  using assms by (cases u) auto

text \<open>Rounding a quotient and multiplying back gives the multiple of the divisor that is
  nearest to the dividend.\<close>

lemma snap_angle:
  fixes a t :: real
  assumes "0 < t"
  defines "k \<equiv> \<lfloor>a / t + 1 / 2\<rfloor>"
  shows "\<bar>of_int k * t - a\<bar> \<le> t / 2" "\<bar>of_int k * t - a\<bar> \<le> \<bar>of_int j * t - a\<bar>"
proof -
  have k: "k = round (a / t)" by (simp add: k_def round_def)
  have scale: "\<bar>of_int i * t - a\<bar> = t * \<bar>of_int i - a / t\<bar>" for i :: int
  proof -
    have "of_int i * t - a = t * (of_int i - a / t)"
      using assms(1) by (simp add: field_simps)
    then show ?thesis using assms(1) by (simp add: abs_mult)
  qed
  have "\<bar>of_int k - a / t\<bar> \<le> 1 / 2"
    unfolding k using of_int_round_abs_le[of "a / t"] by simp
  then show "\<bar>of_int k * t - a\<bar> \<le> t / 2"
    unfolding scale using assms(1) by (simp add: field_simps)
  have "\<bar>a / t - of_int k\<bar> \<le> \<bar>a / t - of_int j\<bar>"
    unfolding k by (rule round_diff_minimal)
  then have "\<bar>of_int k - a / t\<bar> \<le> \<bar>of_int j - a / t\<bar>"
    by (simp add: abs_minus_commute)
  then show "\<bar>of_int k * t - a\<bar> \<le> \<bar>of_int j * t - a\<bar>"
    unfolding scale using assms(1) by simp
qed

section \<open>The surrounding bounding box\<close>

lemma surroundingLoop_eq:
  "surroundingLoop (a1, b1, a2, b2) bs =
     (min2 a1 (Math_min (map x (allRotatedCoords bs))),
      min2 b1 (Math_min (map y (allRotatedCoords bs))),
      max2 a2 (Math_max (map x (allRotatedCoords bs))),
      max2 b2 (Math_max (map y (allRotatedCoords bs))))"
proof (induction bs arbitrary: a1 b1 a2 b2)
  case Nil
  show ?case by (simp add: allRotatedCoords_def Math_min_def Math_max_def)
next
  case (Cons b bs)
  obtain nw ne sw se where c: "getRotatedBoxCoords b = [nw, ne, sw, se]"
    by (simp add: getRotatedBoxCoords_def Let_def)
  have split: "allRotatedCoords (b # bs) = [nw, ne, sw, se] @ allRotatedCoords bs"
    by (simp add: allRotatedCoords_def c)
  show ?case
    unfolding split map_append Math_min_append Math_max_append
    by (simp add: c Cons.IH Math_min_def Math_max_def min2_assoc max2_assoc)
       (simp add: min2_left_commute max2_left_commute min2_commute max2_commute)
qed

lemma finite_corners:
  assumes "finiteBox b" "c \<in> set (getRotatedBoxCoords b)"
  shows "Number_isFinite (x c) \<and> Number_isFinite (y c)"
proof -
  obtain ax ay aw ah ar where
    "x b = Num ax" "y b = Num ay" "w b = Num aw" "h b = Num ah" "rotate b = Num ar"
    using assms(1) unfolding finiteBox_def
    by (cases "x b"; cases "y b"; cases "w b"; cases "h b"; cases "rotate b") auto
  then show ?thesis using assms(2)
    by (auto simp: getRotatedBoxCoords_def rotatePointAroundAnchor_def Let_def)
qed

lemma finite_allRotatedCoords:
  assumes "\<forall>b\<in>set bs. finiteBox b" "c \<in> set (allRotatedCoords bs)"
  shows "Number_isFinite (x c) \<and> Number_isFinite (y c)"
  using assms finite_corners by (auto simp: allRotatedCoords_def)

lemma allRotatedCoords_nonempty: "bs \<noteq> [] \<Longrightarrow> allRotatedCoords bs \<noteq> []"
  by (cases bs) (auto simp: allRotatedCoords_def getRotatedBoxCoords_def Let_def)

lemma surrounding_many:
  assumes "2 \<le> length bs"
  shows "getSurroundingBoundingBox bs =
     \<lparr>x = Math_min (map x (allRotatedCoords bs)),
      y = Math_min (map y (allRotatedCoords bs)),
      w = Math_max (map x (allRotatedCoords bs)) - Math_min (map x (allRotatedCoords bs)),
      h = Math_max (map y (allRotatedCoords bs)) - Math_min (map y (allRotatedCoords bs)),
      rotate = Num 0\<rparr>"
proof -
  from assms have "\<not> length bs < 1" "length bs \<noteq> 1" by auto
  then show ?thesis
    by (simp add: getSurroundingBoundingBox_def surroundingLoop_eq)
qed

text \<open>For a box with finite fields the corners that \<^verbatim>\<open>getRotatedBoxCoords\<close> computes
  are the corners of the box turned by its angle around its centre.\<close>

lemma getRotatedBoxCoords_finite:
  assumes "finiteBox b"
  shows "getRotatedBoxCoords b = map (\<lambda>(p, q). \<lparr>x = Num p, y = Num q\<rparr>) (rotatedCorners b)"
proof -
  obtain ax ay aw ah ar where
    "x b = Num ax" "y b = Num ay" "w b = Num aw" "h b = Num ah" "rotate b = Num ar"
    using assms unfolding finiteBox_def
    by (cases "x b"; cases "y b"; cases "w b"; cases "h b"; cases "rotate b") auto
  then show ?thesis
    by (simp add: getRotatedBoxCoords_def rotatePointAroundAnchor_def Let_def
          rotatedCorners_def boxCorners_def boxCentre_def rotateAbout_def field_simps)
qed

lemma allRotatedCoords_finite:
  assumes "\<forall>b\<in>set bs. finiteBox b"
  shows "allRotatedCoords bs = map (\<lambda>(p, q). \<lparr>x = Num p, y = Num q\<rparr>) (allRotatedCorners bs)"
  using assms
  by (induction bs)
     (simp_all add: allRotatedCoords_def allRotatedCorners_def getRotatedBoxCoords_finite)

lemma coords_of_corners:
  assumes "\<forall>b\<in>set bs. finiteBox b"
  shows "the_real ` x ` set (allRotatedCoords bs) = fst ` set (allRotatedCorners bs)"
    "the_real ` y ` set (allRotatedCoords bs) = snd ` set (allRotatedCorners bs)"
  unfolding allRotatedCoords_finite[OF assms] by (force simp: image_iff)+

text \<open>
  C1. \<^verbatim>\<open>getSurroundingBoundingBox\<close> returns the zero box for the empty list and the box
  itself, rotation included, for a list of one box. For a list of two or more boxes it
  returns the box with no rotation whose extent is the minimum and maximum, as
  \<^verbatim>\<open>Math.min\<close> and \<^verbatim>\<open>Math.max\<close> compute them, over the corners that
  \<^verbatim>\<open>getRotatedBoxCoords\<close> gives for all the boxes. When every field of every box is
  finite, these corners are the corners of each box turned by the angle of the box around
  its centre, and the result is the box from the least to the greatest coordinate of
  these rotated corners: the smallest axis-aligned box around them.
\<close>

theorem getSurroundingBoundingBox_spec:
  fixes b :: RotatedBoundingBox and bs :: "RotatedBoundingBox list"
  defines "cs \<equiv> allRotatedCoords bs"
  defines "xs \<equiv> fst ` set (allRotatedCorners bs)" and "ys \<equiv> snd ` set (allRotatedCorners bs)"
  shows "getSurroundingBoundingBox ([] :: RotatedBoundingBox list)
           = \<lparr>x = Num 0, y = Num 0, w = Num 0, h = Num 0, rotate = Num 0\<rparr>
       \<and> getSurroundingBoundingBox [b] = b
       \<and> (2 \<le> length bs \<longrightarrow>
            getSurroundingBoundingBox bs =
              \<lparr>x = Math_min (map x cs), y = Math_min (map y cs),
               w = Math_max (map x cs) - Math_min (map x cs),
               h = Math_max (map y cs) - Math_min (map y cs), rotate = Num 0\<rparr>)
       \<and> (2 \<le> length bs \<and> (\<forall>c\<in>set bs. finiteBox c) \<longrightarrow>
            cs = map (\<lambda>(p, q). \<lparr>x = Num p, y = Num q\<rparr>) (allRotatedCorners bs)
            \<and> getSurroundingBoundingBox bs =
              \<lparr>x = Num (Min xs), y = Num (Min ys),
               w = Num (Max xs - Min xs), h = Num (Max ys - Min ys), rotate = Num 0\<rparr>)"
proof -
  have none: "getSurroundingBoundingBox ([] :: RotatedBoundingBox list)
           = \<lparr>x = Num 0, y = Num 0, w = Num 0, h = Num 0, rotate = Num 0\<rparr>"
    by (simp add: getSurroundingBoundingBox_def)
  have one: "getSurroundingBoundingBox [b] = b"
    by (simp add: getSurroundingBoundingBox_def)
  have many: "2 \<le> length bs \<Longrightarrow> getSurroundingBoundingBox bs =
              \<lparr>x = Math_min (map x cs), y = Math_min (map y cs),
               w = Math_max (map x cs) - Math_min (map x cs),
               h = Math_max (map y cs) - Math_min (map y cs), rotate = Num 0\<rparr>"
    unfolding cs_def by (rule surrounding_many)
  have fin: "cs = map (\<lambda>(p, q). \<lparr>x = Num p, y = Num q\<rparr>) (allRotatedCorners bs)
             \<and> getSurroundingBoundingBox bs =
              \<lparr>x = Num (Min xs), y = Num (Min ys),
               w = Num (Max xs - Min xs), h = Num (Max ys - Min ys), rotate = Num 0\<rparr>"
    if len: "2 \<le> length bs" and f: "\<forall>c\<in>set bs. finiteBox c"
  proof -
    from len have ne: "cs \<noteq> []" unfolding cs_def
      by (intro allRotatedCoords_nonempty) auto
    have fx: "\<forall>a\<in>set (map x cs). Number_isFinite a"
      and fy: "\<forall>a\<in>set (map y cs). Number_isFinite a"
      using finite_allRotatedCoords[OF f] unfolding cs_def by auto
    have sx: "the_real ` set (map x cs) = xs" and sy: "the_real ` set (map y cs) = ys"
      using coords_of_corners[OF f] by (simp_all add: cs_def xs_def ys_def)
    have "Math_min (map x cs) = Num (Min xs)" "Math_max (map x cs) = Num (Max xs)"
         "Math_min (map y cs) = Num (Min ys)" "Math_max (map y cs) = Num (Max ys)"
      using Math_min_finite[OF _ fx] Math_max_finite[OF _ fx]
            Math_min_finite[OF _ fy] Math_max_finite[OF _ fy] ne
      unfolding sx sy by simp_all
    then show ?thesis using many[OF len] allRotatedCoords_finite[OF f] by (simp add: cs_def)
  qed
  show ?thesis
    using none one many fin by blast
qed

text \<open>A box of width 10 and height 20 turned by a quarter turn, with the same box not
  turned; the two boxes of the specification's example; and a single rotated box.\<close>

theorem getSurroundingBoundingBox_spec_witness:
  "getSurroundingBoundingBox
     [\<lparr>x = Num 0, y = Num 0, w = Num 10, h = Num 20, rotate = Num (pi / 2)\<rparr>,
      \<lparr>x = Num 0, y = Num 0, w = Num 10, h = Num 20, rotate = Num 0\<rparr>]
   = \<lparr>x = Num (- 5), y = Num 0, w = Num 20, h = Num 20, rotate = Num 0\<rparr>
   \<and> getSurroundingBoundingBox
     [\<lparr>x = Num 0, y = Num 0, w = Num 10, h = Num 10, rotate = Num 0\<rparr>,
      \<lparr>x = Num 20, y = Num 20, w = Num 10, h = Num 10, rotate = Num 0\<rparr>]
   = \<lparr>x = Num 0, y = Num 0, w = Num 30, h = Num 30, rotate = Num 0\<rparr>
   \<and> getSurroundingBoundingBox [\<lparr>x = Num 1, y = Num 2, w = Num 3, h = Num 4, rotate = Num 5\<rparr>]
     = \<lparr>x = Num 1, y = Num 2, w = Num 3, h = Num 4, rotate = Num 5\<rparr>"
proof -
  let ?one = "\<lparr>x = Num 1, y = Num 2, w = Num 3, h = Num 4, rotate = Num 5\<rparr>"
  let ?turned = "[\<lparr>x = Num 0, y = Num 0, w = Num 10, h = Num 20, rotate = Num (pi / 2)\<rparr>,
                  \<lparr>x = Num 0, y = Num 0, w = Num 10, h = Num 20, rotate = Num 0\<rparr>]"
  let ?apart = "[\<lparr>x = Num 0, y = Num 0, w = Num 10, h = Num 10, rotate = Num 0\<rparr>,
                 \<lparr>x = Num 20, y = Num 20, w = Num 10, h = Num 10, rotate = Num 0\<rparr>]"
  have ft: "2 \<le> length ?turned \<and> (\<forall>c\<in>set ?turned. finiteBox c)"
    and fa: "2 \<le> length ?apart \<and> (\<forall>c\<in>set ?apart. finiteBox c)"
    by (simp_all add: finiteBox_def)
  from getSurroundingBoundingBox_spec [of ?one ?turned] ft
  have "getSurroundingBoundingBox ?turned =
          \<lparr>x = Num (Min (fst ` set (allRotatedCorners ?turned))),
           y = Num (Min (snd ` set (allRotatedCorners ?turned))),
           w = Num (Max (fst ` set (allRotatedCorners ?turned))
                    - Min (fst ` set (allRotatedCorners ?turned))),
           h = Num (Max (snd ` set (allRotatedCorners ?turned))
                    - Min (snd ` set (allRotatedCorners ?turned))),
           rotate = Num 0\<rparr>"
    by blast
  then have t: "getSurroundingBoundingBox ?turned
                  = \<lparr>x = Num (- 5), y = Num 0, w = Num 20, h = Num 20, rotate = Num 0\<rparr>"
    by (simp add: allRotatedCorners_def rotatedCorners_def boxCorners_def boxCentre_def
          rotateAbout_def)
  from getSurroundingBoundingBox_spec [of ?one ?apart] fa
  have "getSurroundingBoundingBox ?apart =
          \<lparr>x = Num (Min (fst ` set (allRotatedCorners ?apart))),
           y = Num (Min (snd ` set (allRotatedCorners ?apart))),
           w = Num (Max (fst ` set (allRotatedCorners ?apart))
                    - Min (fst ` set (allRotatedCorners ?apart))),
           h = Num (Max (snd ` set (allRotatedCorners ?apart))
                    - Min (snd ` set (allRotatedCorners ?apart))),
           rotate = Num 0\<rparr>"
    by blast
  then have a: "getSurroundingBoundingBox ?apart
                  = \<lparr>x = Num 0, y = Num 0, w = Num 30, h = Num 30, rotate = Num 0\<rparr>"
    by (simp add: allRotatedCorners_def rotatedCorners_def boxCorners_def boxCentre_def
          rotateAbout_def)
  from getSurroundingBoundingBox_spec [of ?one ?apart]
  have o: "getSurroundingBoundingBox [?one] = ?one" by blast
  from t a o show ?thesis by blast
qed

section \<open>Inverting a negative box\<close>

text \<open>
  C2. For every box with finite fields and a negative width or height,
  \<^verbatim>\<open>invertNegativeBoundingBox\<close> returns the box with \<open>x + min w 0\<close>, \<open>y + min h 0\<close>,
  \<open>|w|\<close> and \<open>|h|\<close>; its width and height are not negative; it covers the same region of
  the plane as the box it was given; and each flag tells whether the extent of its axis
  was negative.
\<close>

theorem invertNegativeBoundingBox_correct:
  fixes ax ay aw ah :: real
  assumes "aw < 0 \<or> ah < 0"
  defines "b \<equiv> \<lparr>x = Num ax, y = Num ay, w = Num aw, h = Num ah\<rparr>"
  shows "invertNegativeBoundingBox b =
           \<lparr>box = \<lparr>x = Num (ax + min aw 0), y = Num (ay + min ah 0),
                   w = Num \<bar>aw\<bar>, h = Num \<bar>ah\<bar>\<rparr>,
            didFlipX = (aw < 0), didFlipY = (ah < 0)\<rparr>
         \<and> Num 0 \<le> w (box (invertNegativeBoundingBox b))
         \<and> Num 0 \<le> h (box (invertNegativeBoundingBox b))
         \<and> covers (box (invertNegativeBoundingBox b)) = covers b"
proof -
  have eq: "invertNegativeBoundingBox b =
           \<lparr>box = \<lparr>x = Num (ax + min aw 0), y = Num (ay + min ah 0),
                   w = Num \<bar>aw\<bar>, h = Num \<bar>ah\<bar>\<rparr>,
            didFlipX = (aw < 0), didFlipY = (ah < 0)\<rparr>"
    by (simp add: invertNegativeBoundingBox_def b_def)
  have cov: "covers (box (invertNegativeBoundingBox b)) p = covers b p" for p
    unfolding eq
    by (cases "x p"; cases "y p";
        simp add: covers_def b_def Math_min_def Math_max_def; linarith)
  show ?thesis using eq cov by auto
qed

theorem invertNegativeBoundingBox_correct_witness:
  "((- 50 :: real) < 0 \<or> (40 :: real) < 0)
   \<and> invertNegativeBoundingBox \<lparr>x = Num 150, y = Num 140, w = Num (- 50), h = Num 40\<rparr>
     = \<lparr>box = \<lparr>x = Num 100, y = Num 140, w = Num 50, h = Num 40\<rparr>,
        didFlipX = True, didFlipY = False\<rparr>
   \<and> covers \<lparr>x = Num 100, y = Num 140, w = Num 50, h = Num 40\<rparr>
     = covers \<lparr>x = Num 150, y = Num 140, w = Num (- 50), h = Num 40\<rparr>"
proof -
  have neg: "(- 50 :: real) < 0 \<or> (40 :: real) < 0" by simp
  note inv = invertNegativeBoundingBox_correct
               [where ax = 150 and ay = 140 and aw = "- 50" and ah = 40, OF neg]
  from inv have eq: "invertNegativeBoundingBox
                       \<lparr>x = Num 150, y = Num 140, w = Num (- 50), h = Num 40\<rparr>
     = \<lparr>box = \<lparr>x = Num 100, y = Num 140, w = Num 50, h = Num 40\<rparr>,
        didFlipX = True, didFlipY = False\<rparr>"
    by simp
  from inv have "covers (box (invertNegativeBoundingBox
                       \<lparr>x = Num 150, y = Num 140, w = Num (- 50), h = Num 40\<rparr>))
     = covers \<lparr>x = Num 150, y = Num 140, w = Num (- 50), h = Num 40\<rparr>"
    by blast
  then have "covers \<lparr>x = Num 100, y = Num 140, w = Num 50, h = Num 40\<rparr>
     = covers \<lparr>x = Num 150, y = Num 140, w = Num (- 50), h = Num 40\<rparr>"
    by (simp add: eq)
  with neg eq show ?thesis by blast
qed

section \<open>Assigning without undefined\<close>

lemma assignLoop_lookup:
  "assignLoop target source keys k =
     (if k \<in> set keys \<and> Object_hasOwn source k \<and> getProp source k \<noteq> Undefined
      then Some (getProp source k) else target k)"
  by (induction keys arbitrary: target) (auto simp: Let_def)

text \<open>
  C8. After \<^verbatim>\<open>assignWithoutUndefined(target, source)\<close>, a key whose value in the source
  is \<^verbatim>\<open>undefined\<close>, or that the source does not have, keeps the value it had in the
  target; a key whose value in the source is defined holds that value; and no key outside
  the source is modified.
\<close>

theorem assignWithoutUndefined_frame:
  "(getProp source k = Undefined \<longrightarrow> assignWithoutUndefined target source k = target k)
   \<and> (\<forall>v. getProp source k = Defined v \<longrightarrow>
          assignWithoutUndefined target source k = Some (Defined v))
   \<and> (k \<notin> set (Object_keys source) \<longrightarrow> assignWithoutUndefined target source k = target k)"
proof -
  have absent: "getProp source k = Undefined" if "k \<notin> set (Object_keys source)"
  proof -
    from that have "map_of source k = None"
      by (simp add: Object_keys_def map_of_eq_None_iff)
    then show ?thesis by (simp add: getProp_def)
  qed
  have present: "k \<in> set (Object_keys source)" if "getProp source k = Defined v" for v
    using that absent by fastforce
  show ?thesis
    using absent present
    by (auto simp: assignWithoutUndefined_def assignLoop_lookup Object_hasOwn_def Object_keys_def)
qed

theorem assignWithoutUndefined_frame_witness:
  "assignWithoutUndefined [''x'' \<mapsto> Defined (1::nat), ''y'' \<mapsto> Defined 2, ''w'' \<mapsto> Defined 3]
     [(''x'', Defined 10), (''y'', Undefined)] ''x'' = Some (Defined 10)
   \<and> assignWithoutUndefined [''x'' \<mapsto> Defined (1::nat), ''y'' \<mapsto> Defined 2, ''w'' \<mapsto> Defined 3]
     [(''x'', Defined 10), (''y'', Undefined)] ''y'' = Some (Defined 2)
   \<and> assignWithoutUndefined [''x'' \<mapsto> Defined (1::nat), ''y'' \<mapsto> Defined 2, ''w'' \<mapsto> Defined 3]
     [(''x'', Defined 10), (''y'', Undefined)] ''w'' = Some (Defined 3)"
  using assignWithoutUndefined_frame
     [of "[(''x'', Defined 10), (''y'', Undefined)]" "''x''"
         "[''x'' \<mapsto> Defined (1::nat), ''y'' \<mapsto> Defined 2, ''w'' \<mapsto> Defined 3]"]
    assignWithoutUndefined_frame
     [of "[(''x'', Defined 10), (''y'', Undefined)]" "''y''"
         "[''x'' \<mapsto> Defined (1::nat), ''y'' \<mapsto> Defined 2, ''w'' \<mapsto> Defined 3]"]
    assignWithoutUndefined_frame
     [of "[(''x'', Defined 10), (''y'', Undefined)]" "''w''"
         "[''x'' \<mapsto> Defined (1::nat), ''y'' \<mapsto> Defined 2, ''w'' \<mapsto> Defined 3]"]
  by (simp add: getProp_def Object_keys_def)

section \<open>The ellipse hit test\<close>

lemma ellipseValue_degenerate:
  assumes "w e = Num 0 \<or> h e = Num 0"
  shows "ellipseValue e p = PosInf \<or> ellipseValue e p = NaN"
proof -
  define cX where "cX = x e + w e / Num 2"
  define cY where "cY = y e + h e / Num 2"
  define rc where "rc = rotatePoint (x p) (y p) cX cY (- rotate e)"
  define t where "t = sq (x rc - cX) / sq (w e / Num 2)"
  define u where "u = sq (y rc - cY) / sq (h e / Num 2)"
  have v: "ellipseValue e p = t + u"
    by (simp add: ellipseValue_def Let_def t_def u_def rc_def cX_def cY_def)
  from assms show ?thesis
  proof
    assume "w e = Num 0"
    then have "t = PosInf \<or> t = NaN" using sq_div_zero by (simp add: t_def)
    moreover have "u \<noteq> NegInf" unfolding u_def by (rule sq_div_sq_not_NegInf)
    ultimately show ?thesis using v nonfinite_sum by metis
  next
    assume "h e = Num 0"
    then have "u = PosInf \<or> u = NaN" using sq_div_zero by (simp add: u_def)
    moreover have "t \<noteq> NegInf" unfolding t_def by (rule sq_div_sq_not_NegInf)
    ultimately show ?thesis using v nonfinite_sum by metis
  qed
qed

lemma hitTest_centre:
  fixes ax ay aw ah ar :: real
  assumes "0 < aw" "0 < ah"
  defines "e \<equiv> \<lparr>x = Num ax, y = Num ay, w = Num aw, h = Num ah, rotate = Num ar\<rparr>"
  shows "hitTest e \<lparr>x = x e + w e / Num 2, y = y e + h e / Num 2\<rparr>"
  using assms
  by (simp add: hitTest_def ellipseValue_def rotatePoint_def rotatePointAroundAnchor_def Let_def)

text \<open>
  C10. \<^verbatim>\<open>hitTest\<close> is true at the centre \<open>(x + w/2, y + h/2)\<close> of every ellipse with
  finite fields, \<open>w > 0\<close> and \<open>h > 0\<close>, whatever its rotation. For an ellipse with
  \<open>w = 0\<close> or \<open>h = 0\<close> the value of the ellipse equation is \<^verbatim>\<open>Infinity\<close> or NaN at
  every coordinate, so \<^verbatim>\<open>hitTest\<close> is false everywhere.
\<close>

theorem hitTest_centre_and_degenerate:
  fixes ax ay aw ah ar :: real and e :: RotatedBoundingBox
  shows "(0 < aw \<and> 0 < ah \<longrightarrow>
            hitTest \<lparr>x = Num ax, y = Num ay, w = Num aw, h = Num ah, rotate = Num ar\<rparr>
                    \<lparr>x = Num ax + Num aw / Num 2, y = Num ay + Num ah / Num 2\<rparr>)
         \<and> (w e = Num 0 \<or> h e = Num 0 \<longrightarrow>
              (ellipseValue e p = PosInf \<or> ellipseValue e p = NaN)
              \<and> \<not> Number_isFinite (ellipseValue e p) \<and> \<not> hitTest e p)"
proof -
  have deg: "(ellipseValue e p = PosInf \<or> ellipseValue e p = NaN)
              \<and> \<not> Number_isFinite (ellipseValue e p) \<and> \<not> hitTest e p"
    if "w e = Num 0 \<or> h e = Num 0"
    using ellipseValue_degenerate[OF that, of p] by (auto simp: hitTest_def)
  show ?thesis
    using hitTest_centre[of aw ah ax ay ar] deg by simp
qed

theorem hitTest_centre_and_degenerate_witness:
  "hitTest \<lparr>x = Num 10, y = Num 20, w = Num 4, h = Num 6, rotate = Num 1\<rparr>
           \<lparr>x = Num 12, y = Num 23\<rparr>
   \<and> \<not> hitTest \<lparr>x = Num 10, y = Num 20, w = Num 0, h = Num 6, rotate = Num 0\<rparr>
           \<lparr>x = Num 10, y = Num 23\<rparr>"
  using hitTest_centre_and_degenerate
          [of 4 6 10 20 1 "\<lparr>x = Num 10, y = Num 20, w = Num 0, h = Num 6, rotate = Num 0\<rparr>"
              "\<lparr>x = Num 10, y = Num 23\<rparr>"]
  by simp

section \<open>Creating a shape by a drag\<close>

text \<open>
  C3. With grid snapping disabled (the snap flag of the state off, or the ctrl key held
  at the press and at the move), in a state with zoom \<open>z > 0\<close> and pan offset
  \<open>(sx, sy)\<close>: a press at virtual (100, 100) dragged to virtual (150, 140) leaves the
  shape element at \<open>x = 100\<close>, \<open>y = 100\<close>, \<open>w = 50\<close>, \<open>h = 40\<close> with no flip, and the
  press at virtual (150, 140) dragged to (100, 100) leaves the same box with both flips
  set.
\<close>

theorem shape_creation_drag:
  fixes z sx sy :: real
  assumes zoom: "0 < z" "zoom s = Num z" "scrollOffset s = \<lparr>x = Num sx, y = Num sy\<rparr>"
    and nosnap: "\<not> gridSnap s \<or> (ctrlKey pf \<and> ctrlKey pr \<and> ev_ctrlKey e)"
    and shape: "etype el = ShapeType"
    and forward: "origin pf = \<lparr>x = Num (sx + 100 * z), y = Num (sy + 100 * z)\<rparr>"
                 "offset (drag pf) = \<lparr>x = Num (50 * z), y = Num (40 * z)\<rparr>"
    and reverse: "origin pr = \<lparr>x = Num (sx + 150 * z), y = Num (sy + 140 * z)\<rparr>"
                 "offset (drag pr) = \<lparr>x = Num (- 50 * z), y = Num (- 40 * z)\<rparr>"
  shows "screenOffsetToVirtualOffset (origin pf) s = \<lparr>x = Num 100, y = Num 100\<rparr>
       \<and> virtualPointer s pf = \<lparr>x = Num 150, y = Num 140\<rparr>
       \<and> screenOffsetToVirtualOffset (origin pr) s = \<lparr>x = Num 150, y = Num 140\<rparr>
       \<and> virtualPointer s pr = \<lparr>x = Num 100, y = Num 100\<rparr>
       \<and> onElementCreation s e pf el =
            el\<lparr>x := Num 100, y := Num 100, w := Num 50, h := Num 40,
               flippedX := False, flippedY := False\<rparr>
       \<and> onElementCreation s e pr el =
            el\<lparr>x := Num 100, y := Num 100, w := Num 50, h := Num 40,
               flippedX := True, flippedY := True\<rparr>"
proof -
  have vf: "screenOffsetToVirtualOffset (origin pf) s = \<lparr>x = Num 100, y = Num 100\<rparr>"
    and vr: "screenOffsetToVirtualOffset (origin pr) s = \<lparr>x = Num 150, y = Num 140\<rparr>"
    using zoom forward reverse by (simp_all add: screenOffsetToVirtualOffset_def)
  have cf: "virtualPointer s pf = \<lparr>x = Num 150, y = Num 140\<rparr>"
    and cr: "virtualPointer s pr = \<lparr>x = Num 100, y = Num 100\<rparr>"
    using zoom forward reverse
    by (simp_all add: virtualPointer_def screenOffsetToVirtualOffset_def)
  have bf: "shapeCreationBox s e pf = \<lparr>x = Num 100, y = Num 100, w = Num 50, h = Num 40\<rparr>"
    using nosnap zoom(1,2) forward(2)
    by (auto simp: shapeCreationBox_def vf Let_def snapVirtualCoordsToGrid_def or_else_def)
  have br: "shapeCreationBox s e pr = \<lparr>x = Num 150, y = Num 140, w = Num (- 50), h = Num (- 40)\<rparr>"
    using nosnap zoom(1,2) reverse(2)
    by (auto simp: shapeCreationBox_def vr Let_def snapVirtualCoordsToGrid_def or_else_def)
  have ef: "onElementCreation s e pf el =
            el\<lparr>x := Num 100, y := Num 100, w := Num 50, h := Num 40,
               flippedX := False, flippedY := False\<rparr>"
    by (simp add: onElementCreation_def shape bf invertNegativeBoundingBox_def
          mutateElement_def noMutations_def)
  have er: "onElementCreation s e pr el =
            el\<lparr>x := Num 100, y := Num 100, w := Num 50, h := Num 40,
               flippedX := True, flippedY := True\<rparr>"
    by (simp add: onElementCreation_def shape br invertNegativeBoundingBox_def
          mutateElement_def noMutations_def)
  show ?thesis using vf vr cf cr ef er by simp
qed

theorem shape_creation_drag_witness:
  "onElementCreation exampleState \<lparr>ev_ctrlKey = False\<rparr>
     (examplePointer \<lparr>x = Num 207, y = Num 203\<rparr> \<lparr>x = Num 100, y = Num 80\<rparr>)
     (createShapeElement 1 \<lparr>x = Num 100, y = Num 100, w = Num 0, h = Num 0\<rparr>)
   = (createShapeElement 1 \<lparr>x = Num 100, y = Num 100, w = Num 50, h = Num 40\<rparr>)
   \<and> onElementCreation exampleState \<lparr>ev_ctrlKey = False\<rparr>
     (examplePointer \<lparr>x = Num 307, y = Num 283\<rparr> \<lparr>x = Num (- 100), y = Num (- 80)\<rparr>)
     (createShapeElement 1 \<lparr>x = Num 150, y = Num 140, w = Num 0, h = Num 0\<rparr>)
   = (createShapeElement 1 \<lparr>x = Num 100, y = Num 100, w = Num 50, h = Num 40\<rparr>)
       \<lparr>flippedX := True, flippedY := True\<rparr>"
  using shape_creation_drag
    [where z = 2 and sx = 7 and sy = 3 and s = exampleState and e = "\<lparr>ev_ctrlKey = False\<rparr>"
       and pf = "examplePointer \<lparr>x = Num 207, y = Num 203\<rparr> \<lparr>x = Num 100, y = Num 80\<rparr>"
       and pr = "examplePointer \<lparr>x = Num 307, y = Num 283\<rparr> \<lparr>x = Num (- 100), y = Num (- 80)\<rparr>"
       and el = "createShapeElement 1 \<lparr>x = Num 100, y = Num 100, w = Num 0, h = Num 0\<rparr>"]
    shape_creation_drag
    [where z = 2 and sx = 7 and sy = 3 and s = exampleState and e = "\<lparr>ev_ctrlKey = False\<rparr>"
       and pf = "examplePointer \<lparr>x = Num 207, y = Num 203\<rparr> \<lparr>x = Num 100, y = Num 80\<rparr>"
       and pr = "examplePointer \<lparr>x = Num 307, y = Num 283\<rparr> \<lparr>x = Num (- 100), y = Num (- 80)\<rparr>"
       and el = "createShapeElement 1 \<lparr>x = Num 150, y = Num 140, w = Num 0, h = Num 0\<rparr>"]
  by (simp add: exampleState_def examplePointer_def createShapeElement_def)

section \<open>Creating a freedraw path by a drag\<close>

lemma freedraw_created_path:
  "\<exists>c. createElementFromTool s i Freedraw position snap = Some c
        \<and> etype c = FreedrawType \<and> path c = [(Num 0, Num 0)]
        \<and> x c = x position \<and> y c = y position"
  by (simp add: createElementFromTool_def createFreedrawElement_def Let_def)

lemma freedraw_step_inside:
  fixes ex ey px py :: real
  assumes "etype el = FreedrawType" "path el \<noteq> []" "x el = Num ex" "y el = Num ey"
    and "virtualPointer s p = \<lparr>x = Num px, y = Num py\<rparr>" "ex \<le> px" "ey \<le> py"
  shows "etype (onElementCreation s e p el) = FreedrawType"
    "x (onElementCreation s e p el) = Num ex" "y (onElementCreation s e p el) = Num ey"
    "path (onElementCreation s e p el) \<noteq> []"
    "hd (path (onElementCreation s e p el)) = hd (path el)"
  using assms
  by (simp_all add: onElementCreation_def freedrawMutations_def mutateElement_def
        noMutations_def virtualPointer_def Let_def Math_max_def)

lemma freedraw_drag_inside:
  fixes ex ey :: real
  assumes "etype el = FreedrawType" "path el \<noteq> []" "x el = Num ex" "y el = Num ey"
    and "\<forall>(e, p)\<in>set ms. \<exists>px py. virtualPointer s p = \<lparr>x = Num px, y = Num py\<rparr>
                                   \<and> ex \<le> px \<and> ey \<le> py"
  shows "hd (path (creationDrag s el ms)) = hd (path el)"
  using assms
proof (induction ms arbitrary: el)
  case Nil
  show ?case by simp
next
  case (Cons m ms)
  obtain e p where m: "m = (e, p)" by (cases m)
  from Cons.prems(5) m obtain px py where
    v: "virtualPointer s p = \<lparr>x = Num px, y = Num py\<rparr>" "ex \<le> px" "ey \<le> py"
    by auto
  note step = freedraw_step_inside[OF Cons.prems(1-4) v, of e]
  have "hd (path (creationDrag s (onElementCreation s e p el) ms))
          = hd (path (onElementCreation s e p el))"
    using Cons.prems(5) by (intro Cons.IH step) simp
  then show ?case by (simp add: m step(5))
qed

lemma freedraw_step_outside:
  fixes ex ey px py :: real
  assumes "etype el = FreedrawType" "path el = q # qs" "x el = Num ex" "y el = Num ey"
    and "virtualPointer s p = \<lparr>x = Num px, y = Num py\<rparr>" "px < ex \<or> py < ey"
  shows "hd (path (onElementCreation s e p el)) =
           (toFixed 2 (fst q + Num (max (ex - px) 0)), toFixed 2 (snd q + Num (max (ey - py) 0)))"
  using assms
  by (auto simp: onElementCreation_def freedrawMutations_def mutateElement_def
        noMutations_def virtualPointer_def Let_def Math_max_def max_def split: prod.splits)

text \<open>One step: where the origin goes, that one point is appended, and what happens to
  the points that were on the path.\<close>

lemma freedraw_step:
  fixes ex ey px py :: real
  assumes "etype el = FreedrawType" "x el = Num ex" "y el = Num ey"
    and "virtualPointer s p = \<lparr>x = Num px, y = Num py\<rparr>"
  shows "x (onElementCreation s e p el) = Num (ex - max (ex - px) 0)"
    "y (onElementCreation s e p el) = Num (ey - max (ey - py) 0)"
    "length (path (onElementCreation s e p el)) = Suc (length (path el))"
    "take (length (path el)) (path (onElementCreation s e p el)) =
       (if px < ex \<or> py < ey
        then map (\<lambda>(a, b). (toFixed 2 (a + Num (max (ex - px) 0)),
                            toFixed 2 (b + Num (max (ey - py) 0)))) (path el)
        else path el)"
  using assms
  by (auto simp: onElementCreation_def freedrawMutations_def mutateElement_def
        noMutations_def virtualPointer_def Let_def Math_max_def max_def)

text \<open>
  C4, as amended. A freedraw element is created with the path \<open>[[0,0]]\<close>. One
  creation-drag step on a freedraw element at finite \<open>(x, y)\<close> with a non-empty path,
  the pointer at finite virtual \<open>(px, py)\<close>, moves the origin to \<open>(x - dx, y - dy)\<close>
  with \<open>dx = max (x - px) 0\<close> and \<open>dy = max (y - py) 0\<close>, and appends one point. If
  \<open>dx = dy = 0\<close> (the pointer is not left of or above the origin) every point that was on
  the path, the first included, is unchanged; so the first point stays \<open>[0,0]\<close> along
  every sequence of pointer positions none of which is left of or above the origin. If
  \<open>dx > 0\<close> or \<open>dy > 0\<close>, every point \<open>[a, b]\<close> that was on the path, the first
  included, becomes \<open>[a + dx, b + dy]\<close> rounded to two decimals; the first point is then
  the former first point moved by \<open>(dx, dy)\<close> and rounded, which need not be \<open>[0,0]\<close>.
\<close>

theorem freedraw_first_point:
  fixes ex ey px py :: real
  assumes "etype el = FreedrawType" "path el = q # qs" "x el = Num ex" "y el = Num ey"
  shows "(\<exists>c. createElementFromTool s i Freedraw position snap = Some c
              \<and> path c = [(Num 0, Num 0)])
       \<and> ((\<forall>(e, p)\<in>set ms. \<exists>px py. virtualPointer s p = \<lparr>x = Num px, y = Num py\<rparr>
                                   \<and> ex \<le> px \<and> ey \<le> py)
            \<longrightarrow> hd (path (creationDrag s el ms)) = q)
       \<and> (virtualPointer s p = \<lparr>x = Num px, y = Num py\<rparr>
            \<longrightarrow> x (onElementCreation s e p el) = Num (ex - max (ex - px) 0)
              \<and> y (onElementCreation s e p el) = Num (ey - max (ey - py) 0)
              \<and> length (path (onElementCreation s e p el)) = Suc (length (path el))
              \<and> take (length (path el)) (path (onElementCreation s e p el)) =
                  (if px < ex \<or> py < ey
                   then map (\<lambda>(a, b). (toFixed 2 (a + Num (max (ex - px) 0)),
                                       toFixed 2 (b + Num (max (ey - py) 0)))) (path el)
                   else path el)
              \<and> hd (path (onElementCreation s e p el)) =
                  (if px < ex \<or> py < ey
                   then (toFixed 2 (fst q + Num (max (ex - px) 0)),
                         toFixed 2 (snd q + Num (max (ey - py) 0)))
                   else q))"
proof -
  have a: "\<exists>c. createElementFromTool s i Freedraw position snap = Some c
              \<and> path c = [(Num 0, Num 0)]"
    using freedraw_created_path[of s i position snap] by blast
  have b: "hd (path (creationDrag s el ms)) = q"
    if "\<forall>(e, p)\<in>set ms. \<exists>px py. virtualPointer s p = \<lparr>x = Num px, y = Num py\<rparr>
                                   \<and> ex \<le> px \<and> ey \<le> py"
    using freedraw_drag_inside[OF assms(1) _ assms(3,4) that] assms(2) by simp
  have c: "x (onElementCreation s e p el) = Num (ex - max (ex - px) 0)
              \<and> y (onElementCreation s e p el) = Num (ey - max (ey - py) 0)
              \<and> length (path (onElementCreation s e p el)) = Suc (length (path el))
              \<and> take (length (path el)) (path (onElementCreation s e p el)) =
                  (if px < ex \<or> py < ey
                   then map (\<lambda>(a, b). (toFixed 2 (a + Num (max (ex - px) 0)),
                                       toFixed 2 (b + Num (max (ey - py) 0)))) (path el)
                   else path el)
              \<and> hd (path (onElementCreation s e p el)) =
                  (if px < ex \<or> py < ey
                   then (toFixed 2 (fst q + Num (max (ex - px) 0)),
                         toFixed 2 (snd q + Num (max (ey - py) 0)))
                   else q)"
    if v: "virtualPointer s p = \<lparr>x = Num px, y = Num py\<rparr>"
  proof -
    note st = freedraw_step[OF assms(1,3,4) v, of e]
    have "hd (path (onElementCreation s e p el)) =
                  (if px < ex \<or> py < ey
                   then (toFixed 2 (fst q + Num (max (ex - px) 0)),
                         toFixed 2 (snd q + Num (max (ey - py) 0)))
                   else q)"
    proof (cases "px < ex \<or> py < ey")
      case True
      then show ?thesis using freedraw_step_outside[OF assms v True, of e] by simp
    next
      case False
      then have "ex \<le> px" "ey \<le> py" by auto
      from freedraw_step_inside(5)[OF assms(1) _ assms(3,4) v this, of e] assms(2) False
      show ?thesis by simp
    qed
    with st show ?thesis by blast
  qed
  show ?thesis using a b c by blast
qed

text \<open>A drag that stays right of and below the origin; a step 10 to the left of the
  origin of a new element; and a step 10 further to the left of an element at
  \<open>(90, 100)\<close> whose first point is \<open>[10,0]\<close>, which becomes \<open>[20,0]\<close>.\<close>

theorem freedraw_first_point_witness:
  "hd (path (creationDrag exampleState
        (createFreedrawElement 0 [(Num 0, Num 0)]
           \<lparr>x = Num 100, y = Num 100, w = Num 0, h = Num 0\<rparr>)
        [(\<lparr>ev_ctrlKey = False\<rparr>,
          examplePointer \<lparr>x = Num 207, y = Num 203\<rparr> \<lparr>x = Num 40, y = Num 60\<rparr>),
         (\<lparr>ev_ctrlKey = False\<rparr>,
          examplePointer \<lparr>x = Num 207, y = Num 203\<rparr> \<lparr>x = Num 10, y = Num 0\<rparr>)]))
     = (Num 0, Num 0)
   \<and> x (onElementCreation exampleState \<lparr>ev_ctrlKey = False\<rparr>
        (examplePointer \<lparr>x = Num 207, y = Num 203\<rparr> \<lparr>x = Num (- 20), y = Num 0\<rparr>)
        (createFreedrawElement 0 [(Num 0, Num 0)]
           \<lparr>x = Num 100, y = Num 100, w = Num 0, h = Num 0\<rparr>))
     = Num 90
   \<and> hd (path (onElementCreation exampleState \<lparr>ev_ctrlKey = False\<rparr>
        (examplePointer \<lparr>x = Num 207, y = Num 203\<rparr> \<lparr>x = Num (- 20), y = Num 0\<rparr>)
        (createFreedrawElement 0 [(Num 0, Num 0)]
           \<lparr>x = Num 100, y = Num 100, w = Num 0, h = Num 0\<rparr>)))
     = (Num 10, Num 0)
   \<and> hd (path (onElementCreation exampleState \<lparr>ev_ctrlKey = False\<rparr>
        (examplePointer \<lparr>x = Num 207, y = Num 203\<rparr> \<lparr>x = Num (- 40), y = Num 0\<rparr>)
        (createFreedrawElement 0 [(Num 10, Num 0), (Num 10, Num 0)]
           \<lparr>x = Num 90, y = Num 100, w = Num 10, h = Num 0\<rparr>)))
     = (Num 20, Num 0)"
  using freedraw_first_point
    [where el = "createFreedrawElement 0 [(Num 0, Num 0)]
                   \<lparr>x = Num 100, y = Num 100, w = Num 0, h = Num 0\<rparr>"
       and q = "(Num 0, Num 0)" and qs = "[]" and ex = 100 and ey = 100
       and s = exampleState and e = "\<lparr>ev_ctrlKey = False\<rparr>"
       and p = "examplePointer \<lparr>x = Num 207, y = Num 203\<rparr> \<lparr>x = Num (- 20), y = Num 0\<rparr>"
       and px = 90 and py = 100
       and ms = "[(\<lparr>ev_ctrlKey = False\<rparr>,
                   examplePointer \<lparr>x = Num 207, y = Num 203\<rparr> \<lparr>x = Num 40, y = Num 60\<rparr>),
                  (\<lparr>ev_ctrlKey = False\<rparr>,
                   examplePointer \<lparr>x = Num 207, y = Num 203\<rparr> \<lparr>x = Num 10, y = Num 0\<rparr>)]"]
    freedraw_first_point
    [where el = "createFreedrawElement 0 [(Num 10, Num 0), (Num 10, Num 0)]
                   \<lparr>x = Num 90, y = Num 100, w = Num 10, h = Num 0\<rparr>"
       and q = "(Num 10, Num 0)" and qs = "[(Num 10, Num 0)]" and ex = 90 and ey = 100
       and s = exampleState and e = "\<lparr>ev_ctrlKey = False\<rparr>"
       and p = "examplePointer \<lparr>x = Num 207, y = Num 203\<rparr> \<lparr>x = Num (- 40), y = Num 0\<rparr>"
       and px = 80 and py = 100 and ms = "[]"]
  by (simp add: createFreedrawElement_def virtualPointer_def screenOffsetToVirtualOffset_def
        exampleState_def examplePointer_def)

text \<open>The claim as it was stated fails: a freedraw element created at virtual (100, 100)
  and dragged to virtual (90, 100) has the path \<open>[[10,0],[10,0]]\<close>, whose first point is
  not \<open>[0,0]\<close>.\<close>

theorem freedraw_first_point_counterexample:
  "createElementFromTool exampleState 0 Freedraw \<lparr>x = Num 100, y = Num 100\<rparr> False
     = Some (createFreedrawElement 0 [(Num 0, Num 0)]
               \<lparr>x = Num 100, y = Num 100, w = Num 0, h = Num 0\<rparr>)
   \<and> path (onElementCreation exampleState \<lparr>ev_ctrlKey = False\<rparr>
        (examplePointer \<lparr>x = Num 207, y = Num 203\<rparr> \<lparr>x = Num (- 20), y = Num 0\<rparr>)
        (createFreedrawElement 0 [(Num 0, Num 0)]
               \<lparr>x = Num 100, y = Num 100, w = Num 0, h = Num 0\<rparr>))
     = [(Num 10, Num 0), (Num 10, Num 0)]
   \<and> hd (path (onElementCreation exampleState \<lparr>ev_ctrlKey = False\<rparr>
        (examplePointer \<lparr>x = Num 207, y = Num 203\<rparr> \<lparr>x = Num (- 20), y = Num 0\<rparr>)
        (createFreedrawElement 0 [(Num 0, Num 0)]
               \<lparr>x = Num 100, y = Num 100, w = Num 0, h = Num 0\<rparr>)))
     \<noteq> (Num 0, Num 0)"
  by (simp add: createElementFromTool_def createFreedrawElement_def onElementCreation_def
        freedrawMutations_def mutateElement_def noMutations_def Let_def Math_max_def
        screenOffsetToVirtualOffset_def ELEMENT_PRECISION_def exampleState_def
        examplePointer_def)

section \<open>Pointer-up\<close>

lemma pointerUp_editingText:
  "editingText app \<Longrightarrow> \<exists>app'. onWindowPointerUp neg app = Inr app' \<and> editingText app'"
  by (cases "pointer app")
     (auto simp: editingText_def onWindowPointerUp_def pointerUpSwitch_def)





text \<open>
  C9. On pointer-up in the creating mode with an editing element that is not a text
  element: if \<^verbatim>\<open>isElementNegligible\<close> holds for it in the current state, the element is
  removed from the element layer, which no longer holds it, and the editing reference is
  cleared; if it does not hold, the element layer is as it was and the element is still
  the editing element.
\<close>

theorem pointerUp_negligible:
  assumes "pointer app = Some p" "usermode (state app) = CREATING"
    and "editingElement app = Some el" "etype el \<noteq> TextType"
  shows "\<exists>app'. onWindowPointerUp neg app = Inr app'
          \<and> (if neg el (state app)
              then elementLayer app' = deleteElement el (elementLayer app)
                 \<and> elements (elementLayer app')
                     = filter (\<lambda>a. ident a \<noteq> ident el) (elements (elementLayer app))
                 \<and> (\<forall>a \<in> set (elements (elementLayer app')). ident a \<noteq> ident el)
                 \<and> editingElement app' = None
              else elementLayer app' = elementLayer app
                 \<and> editingElement app' = Some el)"
  using assms
  by (auto simp: onWindowPointerUp_def pointerUpSwitch_def deleteElement_def)

theorem pointerUp_negligible_witness:
  "(\<exists>app'. onWindowPointerUp (\<lambda>el s. w el = Num 0)
       (exampleApp CREATING
          (createShapeElement 1 \<lparr>x = Num 100, y = Num 100, w = Num 0, h = Num 0\<rparr>))
       = Inr app' \<and> elements (elementLayer app') = [] \<and> editingElement app' = None)
   \<and> (\<exists>app'. onWindowPointerUp (\<lambda>el s. w el = Num 0)
       (exampleApp CREATING
          (createShapeElement 1 \<lparr>x = Num 100, y = Num 100, w = Num 50, h = Num 40\<rparr>))
       = Inr app'
       \<and> elements (elementLayer app')
           = [createShapeElement 1 \<lparr>x = Num 100, y = Num 100, w = Num 50, h = Num 40\<rparr>])"
  using pointerUp_negligible
    [where app = "exampleApp CREATING
          (createShapeElement 1 \<lparr>x = Num 100, y = Num 100, w = Num 0, h = Num 0\<rparr>)"
       and p = "examplePointer \<lparr>x = Num 207, y = Num 203\<rparr> \<lparr>x = Num 0, y = Num 0\<rparr>"
       and el = "createShapeElement 1 \<lparr>x = Num 100, y = Num 100, w = Num 0, h = Num 0\<rparr>"
       and neg = "\<lambda>el s. w el = Num 0"]
    pointerUp_negligible
    [where app = "exampleApp CREATING
          (createShapeElement 1 \<lparr>x = Num 100, y = Num 100, w = Num 50, h = Num 40\<rparr>)"
       and p = "examplePointer \<lparr>x = Num 207, y = Num 203\<rparr> \<lparr>x = Num 0, y = Num 0\<rparr>"
       and el = "createShapeElement 1 \<lparr>x = Num 100, y = Num 100, w = Num 50, h = Num 40\<rparr>"
       and neg = "\<lambda>el s. w el = Num 0"]
  by (auto simp: exampleApp_def createShapeElement_def exampleState_def)

section \<open>The design menu\<close>

lemma designScale_finite: "Number_isFinite (designScale mw ew)"
  by (cases "rawScale mw ew") (simp_all add: designScale_def)

lemma designScale_zero: "designScale mw (Num 0) = Num 1"
  using div_zero_not_finite by (simp add: designScale_def rawScale_def)

text \<open>What the step for one element does when a width or height is 0: the scale
  factor \<^verbatim>\<open>(mutations.w ?? element.w) / element.w\<close> is not finite and is replaced by
  1; when both factors are 1 after the replacement the step leaves the patch as it came,
  so the element is mutated with the patch as it came. The factors given to
  \<^verbatim>\<open>rescalePath\<close> are always finite.\<close>

lemma designMenu_degenerate_scale:
  "(w el = Num 0 \<longrightarrow> \<not> Number_isFinite (rawScale (m_w m) (w el))
                      \<and> designScale (m_w m) (w el) = Num 1)
   \<and> (h el = Num 0 \<longrightarrow> \<not> Number_isFinite (rawScale (m_h m) (h el))
                      \<and> designScale (m_h m) (h el) = Num 1)
   \<and> (designScale (m_w m) (w el) = Num 1 \<and> designScale (m_h m) (h el) = Num 1
        \<longrightarrow> designMutations rescalePath m el = m
          \<and> onDesignMenuUpdate rescalePath (el # els) m
              = mutateElement el m # onDesignMenuUpdate rescalePath els m
          \<and> (m_path m = None \<longrightarrow> path (mutateElement el m) = path el))
   \<and> Number_isFinite (designScale (m_w m) (w el))
   \<and> Number_isFinite (designScale (m_h m) (h el))"
proof -
  have keep: "designMutations rescalePath m el = m"
    if "designScale (m_w m) (w el) = Num 1" "designScale (m_h m) (h el) = Num 1"
    using that by (simp add: designMutations_def)
  have same: "m_path m = None \<Longrightarrow> path (mutateElement el m) = path el"
    by (simp add: mutateElement_def)
  show ?thesis
    using div_zero_not_finite designScale_zero designScale_finite keep same
    by (simp add: rawScale_def)
qed

text \<open>
  C6. The patch is one object for all elements of a call, and the path that the step
  for one element stores in it stays there for the elements after it. With a freedraw
  element of width 10 and, after it, a freedraw element of width 0 and height 0, a patch
  that sets the width to 20 gives the second element both factors 1, so its step does
  not store a path; yet the element is mutated with the path stored for the first
  element, and its own path \<open>[[0,0]]\<close> is replaced by the rescaled path of the first.
\<close>

theorem designMenu_shared_patch:
  "designScale (Some (Num 20)) (Num 0) = Num 1
   \<and> designScale None (Num 0) = Num 1
   \<and> map path
        (onDesignMenuUpdate rescalePath
           [createFreedrawElement 0 [(Num 0, Num 0), (Num 10, Num 10)]
              \<lparr>x = Num 0, y = Num 0, w = Num 10, h = Num 10\<rparr>,
            createFreedrawElement 1 [(Num 0, Num 0)]
              \<lparr>x = Num 50, y = Num 50, w = Num 0, h = Num 0\<rparr>]
           (noMutations\<lparr>m_w := Some (Num 20)\<rparr>))
     = [rescalePath [(Num 0, Num 0), (Num 10, Num 10)] (Num 2) (Num 1) (Num 0) (Num 0),
        rescalePath [(Num 0, Num 0), (Num 10, Num 10)] (Num 2) (Num 1) (Num 0) (Num 0)]"
  by (simp add: designScale_zero designMutations_def designScale_def rawScale_def
        createFreedrawElement_def noMutations_def mutateElement_def)

theorem designMenu_shared_patch_witness:
  "map path
        (onDesignMenuUpdate (\<lambda>p sx sy ox oy. map (\<lambda>(a, b). (a * sx, b * sy)) p)
           [createFreedrawElement 0 [(Num 0, Num 0), (Num 10, Num 10)]
              \<lparr>x = Num 0, y = Num 0, w = Num 10, h = Num 10\<rparr>,
            createFreedrawElement 1 [(Num 0, Num 0)]
              \<lparr>x = Num 50, y = Num 50, w = Num 0, h = Num 0\<rparr>]
           (noMutations\<lparr>m_w := Some (Num 20)\<rparr>))
     = [[(Num 0, Num 0), (Num 20, Num 10)], [(Num 0, Num 0), (Num 20, Num 10)]]"
  using designMenu_shared_patch [where rescalePath = "\<lambda>p sx sy ox oy. map (\<lambda>(a, b). (a * sx, b * sy)) p"]
  by simp

section \<open>Rotation\<close>

text \<open>
  C7. In \<^verbatim>\<open>onElementRotate\<close> with the ctrl key not held and a finite raw angle \<open>a\<close>
  from \<^verbatim>\<open>getRotateAngle\<close>, the angle given to \<^verbatim>\<open>getRotateMutations\<close> for every
  transforming element is \<open>k * (pi / 12)\<close> for an integer \<open>k\<close>; it differs from \<open>a\<close> by
  at most \<open>pi / 24\<close>, and no integer multiple of \<open>pi / 12\<close> is nearer to \<open>a\<close>.
\<close>

theorem rotate_snaps_to_threshold:
  assumes ctrl: "\<not> ev_ctrlKey e"
    and raw: "getRotateAngle els (virtualPointer s p) handle = Num a"
  shows "\<exists>k :: int.
           onElementRotate getRotateAngle getRotateMutations s e p els handle =
             map (\<lambda>t. mutateElement (element t)
                        (getRotateMutations t (Num (of_int k * (pi / 12))) handle)) els
         \<and> ROTATION_SNAP_THRESHOLD = Num (pi / 12)
         \<and> \<bar>of_int k * (pi / 12) - a\<bar> \<le> pi / 24
         \<and> (\<forall>j :: int. \<bar>of_int k * (pi / 12) - a\<bar> \<le> \<bar>of_int j * (pi / 12) - a\<bar>)"
proof -
  define k where "k = \<lfloor>a / (pi / 12) + 1 / 2\<rfloor>"
  have pos: "0 < pi / 12" by simp
  have run: "onElementRotate getRotateAngle getRotateMutations s e p els handle =
             map (\<lambda>t. mutateElement (element t)
                        (getRotateMutations t (Num (of_int k * (pi / 12))) handle)) els"
    using ctrl raw
    by (simp add: onElementRotate_def virtualPointer_def ROTATION_SNAP_THRESHOLD_def
          Let_def k_def)
  have near: "\<bar>of_int k * (pi / 12) - a\<bar> \<le> pi / 24"
    using snap_angle(1)[OF pos, of a] by (simp add: k_def)
  have best: "\<bar>of_int k * (pi / 12) - a\<bar> \<le> \<bar>of_int j * (pi / 12) - a\<bar>" for j :: int
    using snap_angle(2)[OF pos, of a j] by (simp add: k_def)
  show ?thesis
    using run near best by (auto simp: ROTATION_SNAP_THRESHOLD_def)
qed

theorem rotate_snaps_to_threshold_witness:
  "\<exists>k :: int.
     onElementRotate (\<lambda>els c handle. Num 1)
       (\<lambda>t angle handle. noMutations\<lparr>m_rotate := Some angle\<rparr>)
       exampleState \<lparr>ev_ctrlKey = False\<rparr>
       (examplePointer \<lparr>x = Num 207, y = Num 203\<rparr> \<lparr>x = Num 10, y = Num 0\<rparr>)
       [\<lparr>element = createShapeElement 1 \<lparr>x = Num 100, y = Num 100, w = Num 50, h = Num 40\<rparr>,
         initialElement =
           createShapeElement 1 \<lparr>x = Num 100, y = Num 100, w = Num 50, h = Num 40\<rparr>\<rparr>]
       ()
     = [(createShapeElement 1 \<lparr>x = Num 100, y = Num 100, w = Num 50, h = Num 40\<rparr>)
          \<lparr>rotate := Num (of_int k * (pi / 12))\<rparr>]
     \<and> \<bar>of_int k * (pi / 12) - 1\<bar> \<le> pi / 24"
  using rotate_snaps_to_threshold
    [where e = "\<lparr>ev_ctrlKey = False\<rparr>" and getRotateAngle = "\<lambda>els c handle. Num 1"
       and getRotateMutations = "\<lambda>t angle handle. noMutations\<lparr>m_rotate := Some angle\<rparr>"
       and s = exampleState and a = 1 and handle = "()"
       and p = "examplePointer \<lparr>x = Num 207, y = Num 203\<rparr> \<lparr>x = Num 10, y = Num 0\<rparr>"
       and els = "[\<lparr>element = createShapeElement 1
                                 \<lparr>x = Num 100, y = Num 100, w = Num 50, h = Num 40\<rparr>,
                    initialElement = createShapeElement 1
                                 \<lparr>x = Num 100, y = Num 100, w = Num 50, h = Num 40\<rparr>\<rparr>]"]
  by (auto simp: createShapeElement_def noMutations_def mutateElement_def)

end
